theory Spec2Isabelle
  imports Main "HOL-Library.Sublist"
begin

section \<open>Command execution: \<open>cobalt/tools.py\<close>\<close>

text \<open>
  Texts are byte strings (\<open>string\<close>); every delimiter the program looks for is ASCII.
\<close>

subsection \<open>\<open>shlex.split\<close> and \<open>str.split\<close>\<close>

text \<open>
  \<open>shlex.split(command)\<close> runs the POSIX lexer with \<open>whitespace_split\<close> and no
  comment characters. The lexer is a state machine over the characters; a quotation or
  an escape that the end of the text leaves open raises \<open>ValueError\<close> (\<open>None\<close> here).
\<close>

datatype shstate = SWs | SWord | SQuote char | SEsc shstate

definition shlex_whitespace :: "char \<Rightarrow> bool" where
  "shlex_whitespace c = (c \<in> set [CHR '' '', CHR 0x09, CHR 0x0D, CHR 0x0A])"

definition shlex_quote :: "char \<Rightarrow> bool" where
  "shlex_quote c = (c = CHR 0x27 \<or> c = CHR 0x22)"

definition shlex_escape :: "char \<Rightarrow> bool" where
  "shlex_escape c = (c = CHR 0x5C)"

fun shlex_go :: "shstate \<Rightarrow> string \<Rightarrow> bool \<Rightarrow> string \<Rightarrow> string list option" where
  "shlex_go SWs tok quoted [] = Some []"
| "shlex_go SWs tok quoted (c # cs) =
     (if shlex_whitespace c then shlex_go SWs tok quoted cs
      else if shlex_escape c then shlex_go (SEsc SWord) tok quoted cs
      else if shlex_quote c then shlex_go (SQuote c) tok quoted cs
      else shlex_go SWord [c] quoted cs)"
| "shlex_go (SQuote q) tok quoted [] = None"
| "shlex_go (SQuote q) tok quoted (c # cs) =
     (if c = q then shlex_go SWord tok True cs
      else if shlex_escape c \<and> q = CHR 0x22 then shlex_go (SEsc (SQuote q)) tok True cs
      else shlex_go (SQuote q) (tok @ [c]) True cs)"
| "shlex_go (SEsc st) tok quoted [] = None"
| "shlex_go (SEsc st) tok quoted (c # cs) =
     (case st of
        SQuote q \<Rightarrow>
          shlex_go st (if c \<noteq> CHR 0x5C \<and> c \<noteq> q then tok @ [CHR 0x5C, c] else tok @ [c]) quoted cs
      | _ \<Rightarrow> shlex_go st (tok @ [c]) quoted cs)"
| "shlex_go SWord tok quoted [] = Some (if tok \<noteq> [] \<or> quoted then [tok] else [])"
| "shlex_go SWord tok quoted (c # cs) =
     (if shlex_whitespace c then
        (if tok \<noteq> [] \<or> quoted then map_option (Cons tok) (shlex_go SWs [] False cs)
         else shlex_go SWs tok quoted cs)
      else if shlex_quote c then shlex_go (SQuote c) tok quoted cs
      else if shlex_escape c then shlex_go (SEsc SWord) tok quoted cs
      else shlex_go SWord (tok @ [c]) quoted cs)"

definition shlex_split :: "string \<Rightarrow> string list option" where
  "shlex_split s = shlex_go SWs [] False s"

text \<open>\<open>command.split()\<close>: the maximal runs of non-whitespace characters.\<close>

definition str_whitespace :: "char \<Rightarrow> bool" where
  "str_whitespace c =
     (c \<in> set [CHR '' '', CHR 0x09, CHR 0x0A, CHR 0x0B, CHR 0x0C, CHR 0x0D,
               CHR 0x1C, CHR 0x1D, CHR 0x1E, CHR 0x1F])"

fun str_split_go :: "string \<Rightarrow> string \<Rightarrow> string list" where
  "str_split_go tok [] = (if tok = [] then [] else [tok])"
| "str_split_go tok (c # cs) =
     (if str_whitespace c then (if tok = [] then str_split_go [] cs else tok # str_split_go [] cs)
      else str_split_go (tok @ [c]) cs)"

definition str_split :: "string \<Rightarrow> string list" where
  "str_split s = str_split_go [] s"

subsection \<open>Formatting\<close>

fun str_nat :: "nat \<Rightarrow> string" where
  "str_nat n = (if n < 10 then [char_of (48 + n)] else str_nat (n div 10) @ [char_of (48 + n mod 10)])"

declare str_nat.simps [simp del]

definition str_int :: "int \<Rightarrow> string" where
  "str_int i = (if i < 0 then CHR ''-'' # str_nat (nat (- i)) else str_nat (nat i))"

fun join :: "string \<Rightarrow> string list \<Rightarrow> string" where
  "join sep [] = []"
| "join sep [x] = x"
| "join sep (x # y # ys) = x @ sep @ join sep (y # ys)"

fun startswith :: "string \<Rightarrow> string \<Rightarrow> bool" where
  "startswith s [] = True"
| "startswith [] (p # ps) = False"
| "startswith (c # cs) (p # ps) = (c = p \<and> startswith cs ps)"

subsection \<open>\<open>ToolResult\<close> and \<open>RunCommandTool.execute\<close>\<close>

datatype meta = MInt int | MStr string

record ToolResult =
  success :: bool
  output_text :: string
  error :: "string option"
  metadata :: "(string \<times> meta) list"

text \<open>
  What \<open>subprocess.run(cmd_parts, capture_output=True, text=True, timeout=60, ...)\<close>
  does: it returns a completed process, or raises \<open>TimeoutExpired\<close>,
  \<open>FileNotFoundError\<close> or another exception (with its text).
\<close>

datatype proc_outcome =
    Completed int string string
  | TimeoutExpired
  | FileNotFoundError
  | OtherException string

record RunCommandTool =
  safe_mode :: bool
  allowed_commands :: "string list"

definition the_allowed_commands :: "string list" where
  "the_allowed_commands =
     [''python'', ''python3'', ''pip'', ''pip3'', ''node'', ''npm'', ''npx'',
      ''ls'', ''dir'', ''cat'', ''type'', ''echo'', ''git'', ''pytest'', ''test'']"

definition RunCommandTool_init :: "bool \<Rightarrow> RunCommandTool" where
  "RunCommandTool_init sm = \<lparr> safe_mode = sm, allowed_commands = the_allowed_commands \<rparr>"

definition split_command :: "string \<Rightarrow> string list" where
  "split_command command = (case shlex_split command of Some ps \<Rightarrow> ps | None \<Rightarrow> str_split command)"

definition command_allowed :: "RunCommandTool \<Rightarrow> string \<Rightarrow> bool" where
  "command_allowed t base_command = list_ex (startswith base_command) (allowed_commands t)"

definition not_allowed_error :: "RunCommandTool \<Rightarrow> string \<Rightarrow> string" where
  "not_allowed_error t base_command =
     ''Command '' @ [CHR 0x27] @ base_command @ [CHR 0x27] @ '' not allowed in safe mode. Allowed: ''
       @ join '', '' (allowed_commands t)"

definition failure :: "string \<Rightarrow> ToolResult" where
  "failure msg = \<lparr> success = False, output_text = [], error = Some msg, metadata = [] \<rparr>"

definition run_result :: "string \<Rightarrow> string \<Rightarrow> string \<Rightarrow> proc_outcome \<Rightarrow> ToolResult" where
  "run_result command reason base_command r =
     (case r of
        Completed returncode out err \<Rightarrow>
          (let outp = (if err \<noteq> [] then out @ [CHR 0x0A] @ ''[stderr]: '' @ err else out)
           in \<lparr> success = (returncode = 0),
                output_text = (if outp \<noteq> [] then outp else ''(no output)''),
                error = (if returncode = 0 then None
                         else Some (''Command exited with code '' @ str_int returncode)),
                metadata = [(''returncode'', MInt returncode), (''command'', MStr command),
                            (''reason'', MStr reason)] \<rparr>)
      | TimeoutExpired \<Rightarrow> failure ''Command timed out after 60 seconds''
      | FileNotFoundError \<Rightarrow> failure (''Command not found: '' @ base_command)
      | OtherException e \<Rightarrow> failure (''Error running command: '' @ e))"

text \<open>
  \<open>execute\<close> returns the result together with the list of processes it spawned (the
  argument vectors handed to \<open>subprocess.run\<close>); \<open>run\<close> is what the operating system
  answers to a spawn.
\<close>

definition execute :: "RunCommandTool \<Rightarrow> (string list \<Rightarrow> proc_outcome) \<Rightarrow> string \<Rightarrow> string
    \<Rightarrow> ToolResult \<times> string list list" where
  "execute t run command reason =
     (case split_command command of
        [] \<Rightarrow> (failure ''Empty command'', [])
      | base_command # args \<Rightarrow>
          if safe_mode t \<and> \<not> command_allowed t base_command
          then (failure (not_allowed_error t base_command), [])
          else (run_result command reason base_command (run (base_command # args)),
                [base_command # args]))"

section \<open>The workspace: \<open>cobalt/workspace.py\<close>\<close>

subsection \<open>Paths and the file system\<close>

text \<open>
  The model is a POSIX file system without symbolic links: a tree of directories and
  regular files, addressed by the list of path components from \<open>/\<close>. A file holds
  bytes; a Python \<open>str\<close> written to or read from it is a list of code points.
\<close>

type_synonym path = "string list"
type_synonym bytes = "nat list"
type_synonym str = "nat list"

datatype node = File bytes | Dir

type_synonym fs = "path \<Rightarrow> node option"

datatype oserror = ENOENT | ENOTDIR | EISDIR | EEXIST

datatype exn = ValueError | OSError oserror | UnicodeDecodeError | UnicodeEncodeError

text \<open>
  \<open>pathlib\<close> splits a path string at \<open>/\<close>, drops empty and \<open>.\<close> components and keeps
  \<open>..\<close>; \<open>root / filepath\<close> is \<open>filepath\<close> alone when that is absolute.
\<close>

fun split_slash :: "string \<Rightarrow> string \<Rightarrow> string list" where
  "split_slash acc [] = [acc]"
| "split_slash acc (c # cs) =
     (if c = CHR ''/'' then acc # split_slash [] cs else split_slash (acc @ [c]) cs)"

definition path_parts :: "string \<Rightarrow> string list" where
  "path_parts s = filter (\<lambda>c. c \<noteq> [] \<and> c \<noteq> ''.'') (split_slash [] s)"

definition is_absolute :: "string \<Rightarrow> bool" where
  "is_absolute s = (case s of [] \<Rightarrow> False | c # _ \<Rightarrow> c = CHR ''/'')"

definition joinpath :: "path \<Rightarrow> string \<Rightarrow> string list" where
  "joinpath r filepath = (if is_absolute filepath then path_parts filepath else r @ path_parts filepath)"

text \<open>
  \<open>Path.resolve()\<close>, with no symbolic link to follow, removes each \<open>..\<close> together with
  the component before it (\<open>/..\<close> is \<open>/\<close>), whether or not the path exists.
\<close>

fun resolve_from :: "path \<Rightarrow> string list \<Rightarrow> path" where
  "resolve_from cur [] = cur"
| "resolve_from cur (c # cs) = resolve_from (if c = ''..'' then butlast cur else cur @ [c]) cs"

definition resolve :: "string list \<Rightarrow> path" where
  "resolve p = resolve_from [] p"

definition is_relative_to :: "path \<Rightarrow> path \<Rightarrow> bool" where
  "is_relative_to p r = prefix r p"

text \<open>
  The operating system follows a path component by component: every component but the
  last is looked up in (or, for \<open>..\<close>, leaves) an existing directory.
\<close>

fun walk :: "fs \<Rightarrow> path \<Rightarrow> string list \<Rightarrow> oserror + path" where
  "walk f cur [] = Inr cur"
| "walk f cur (c # cs) =
     (case f cur of
        None \<Rightarrow> Inl ENOENT
      | Some (File _) \<Rightarrow> Inl ENOTDIR
      | Some Dir \<Rightarrow> walk f (if c = ''..'' then butlast cur else cur @ [c]) cs)"

definition locate :: "fs \<Rightarrow> string list \<Rightarrow> oserror + path" where
  "locate f p = walk f [] p"

definition path_exists :: "fs \<Rightarrow> string list \<Rightarrow> bool" where
  "path_exists f p = (case locate f p of Inl _ \<Rightarrow> False | Inr q \<Rightarrow> f q \<noteq> None)"

definition is_dir :: "fs \<Rightarrow> string list \<Rightarrow> bool" where
  "is_dir f p = (case locate f p of Inl _ \<Rightarrow> False | Inr q \<Rightarrow> f q = Some Dir)"

definition os_unlink :: "fs \<Rightarrow> string list \<Rightarrow> oserror + fs" where
  "os_unlink f p =
     (case locate f p of
        Inl e \<Rightarrow> Inl e
      | Inr q \<Rightarrow> (case f q of
                   None \<Rightarrow> Inl ENOENT
                 | Some Dir \<Rightarrow> Inl EISDIR
                 | Some (File _) \<Rightarrow> Inr (f(q := None))))"

definition os_mkdir :: "fs \<Rightarrow> string list \<Rightarrow> oserror + fs" where
  "os_mkdir f p =
     (case locate f p of
        Inl e \<Rightarrow> Inl e
      | Inr q \<Rightarrow> (case f q of None \<Rightarrow> Inr (f(q \<mapsto> Dir)) | Some _ \<Rightarrow> Inl EEXIST))"

definition read_bytes :: "fs \<Rightarrow> string list \<Rightarrow> oserror + bytes" where
  "read_bytes f p =
     (case locate f p of
        Inl e \<Rightarrow> Inl e
      | Inr q \<Rightarrow> (case f q of
                   None \<Rightarrow> Inl ENOENT
                 | Some Dir \<Rightarrow> Inl EISDIR
                 | Some (File bs) \<Rightarrow> Inr bs))"

text \<open>\<open>open(path, 'w')\<close> creates the file or truncates it.\<close>

definition open_w :: "fs \<Rightarrow> string list \<Rightarrow> oserror + (path \<times> fs)" where
  "open_w f p =
     (case locate f p of
        Inl e \<Rightarrow> Inl e
      | Inr q \<Rightarrow> (case f q of Some Dir \<Rightarrow> Inl EISDIR | _ \<Rightarrow> Inr (q, f(q \<mapsto> File []))))"

text \<open>
  \<open>Path.mkdir(parents=True, exist_ok=True)\<close>: \<open>os.mkdir\<close>; on \<open>FileNotFoundError\<close> the
  parent is made first and \<open>os.mkdir\<close> tried again; any other \<open>OSError\<close> is ignored when
  the path is a directory. The file system is returned also when an error is raised.
\<close>

function mkdir_parents :: "fs \<Rightarrow> string list \<Rightarrow> oserror option \<times> fs" where
  "mkdir_parents f p =
     (case os_mkdir f p of
        Inr f' \<Rightarrow> (None, f')
      | Inl e \<Rightarrow>
          if e = ENOENT then
            (if p = [] then (Some ENOENT, f)
             else (case mkdir_parents f (butlast p) of
                     (Some e', f1) \<Rightarrow> (Some e', f1)
                   | (None, f1) \<Rightarrow>
                       (case os_mkdir f1 p of
                          Inr f2 \<Rightarrow> (None, f2)
                        | Inl e2 \<Rightarrow> if e2 \<noteq> ENOENT \<and> is_dir f1 p then (None, f1)
                                    else (Some e2, f1))))
          else if is_dir f p then (None, f) else (Some e, f))"
  by pat_completeness auto
termination
  by (relation "measure (\<lambda>(f, p). length p)") auto

declare mkdir_parents.simps [simp del]

subsection \<open>Text encodings\<close>

definition utf8_encode_cp :: "nat \<Rightarrow> bytes option" where
  "utf8_encode_cp c =
     (if c < 0x80 then Some [c]
      else if c < 0x800 then Some [0xC0 + c div 64, 0x80 + c mod 64]
      else if c < 0x10000 then
        (if 0xD800 \<le> c \<and> c \<le> 0xDFFF then None
         else Some [0xE0 + c div 4096, 0x80 + (c div 64) mod 64, 0x80 + c mod 64])
      else if c < 0x110000 then
        Some [0xF0 + c div 262144, 0x80 + (c div 4096) mod 64, 0x80 + (c div 64) mod 64,
              0x80 + c mod 64]
      else None)"

fun utf8_encode :: "str \<Rightarrow> bytes option" where
  "utf8_encode [] = Some []"
| "utf8_encode (c # cs) =
     (case utf8_encode_cp c of
        None \<Rightarrow> None
      | Some e \<Rightarrow> (case utf8_encode cs of None \<Rightarrow> None | Some es \<Rightarrow> Some (e @ es)))"

definition continuation :: "nat \<Rightarrow> bool" where
  "continuation b = (0x80 \<le> b \<and> b < 0xC0)"

fun utf8_decode :: "bytes \<Rightarrow> str option" where
  "utf8_decode [] = Some []"
| "utf8_decode (b0 # bs) =
     (if b0 < 0x80 then map_option (Cons b0) (utf8_decode bs)
      else if 0xC2 \<le> b0 \<and> b0 < 0xE0 then
        (case bs of
           b1 # r \<Rightarrow>
             if continuation b1
             then map_option (Cons ((b0 - 0xC0) * 64 + (b1 - 0x80))) (utf8_decode r)
             else None
         | _ \<Rightarrow> None)
      else if 0xE0 \<le> b0 \<and> b0 < 0xF0 then
        (case bs of
           b1 # b2 # r \<Rightarrow>
             (let c = (b0 - 0xE0) * 4096 + (b1 - 0x80) * 64 + (b2 - 0x80)
              in if continuation b1 \<and> continuation b2 \<and> 0x800 \<le> c
                    \<and> \<not> (0xD800 \<le> c \<and> c \<le> 0xDFFF)
                 then map_option (Cons c) (utf8_decode r) else None)
         | _ \<Rightarrow> None)
      else if 0xF0 \<le> b0 \<and> b0 < 0xF5 then
        (case bs of
           b1 # b2 # b3 # r \<Rightarrow>
             (let c = (b0 - 0xF0) * 262144 + (b1 - 0x80) * 4096 + (b2 - 0x80) * 64 + (b3 - 0x80)
              in if continuation b1 \<and> continuation b2 \<and> continuation b3
                    \<and> 0x10000 \<le> c \<and> c < 0x110000
                 then map_option (Cons c) (utf8_decode r) else None)
         | _ \<Rightarrow> None)
      else None)"

text \<open>Latin-1 maps every byte to the code point of the same number.\<close>

definition latin1_decode :: "bytes \<Rightarrow> str option" where
  "latin1_decode bs = Some bs"

datatype encoding = UTF8 | Latin1

definition decode :: "encoding \<Rightarrow> bytes \<Rightarrow> str option" where
  "decode enc bs = (case enc of UTF8 \<Rightarrow> utf8_decode bs | Latin1 \<Rightarrow> latin1_decode bs)"

text \<open>
  A file opened for reading in text mode has universal newlines: \<open>\r\n\<close> and a lone
  \<open>\r\<close> are read as \<open>\n\<close>. On POSIX, writing changes no character.
\<close>

fun universal_newlines :: "str \<Rightarrow> str" where
  "universal_newlines [] = []"
| "universal_newlines [c] = (if c = 13 then [10] else [c])"
| "universal_newlines (c # d # cs) =
     (if c = 13 then (if d = 10 then 10 # universal_newlines cs else 10 # universal_newlines (d # cs))
      else c # universal_newlines (d # cs))"

definition read_text :: "encoding \<Rightarrow> fs \<Rightarrow> string list \<Rightarrow> exn + str" where
  "read_text enc f p =
     (case read_bytes f p of
        Inl e \<Rightarrow> Inl (OSError e)
      | Inr bs \<Rightarrow> (case decode enc bs of
                    None \<Rightarrow> Inl UnicodeDecodeError
                  | Some t \<Rightarrow> Inr (universal_newlines t)))"

definition write_text :: "fs \<Rightarrow> string list \<Rightarrow> str \<Rightarrow> exn option \<times> fs" where
  "write_text f p content =
     (case open_w f p of
        Inl e \<Rightarrow> (Some (OSError e), f)
      | Inr (q, f1) \<Rightarrow> (case utf8_encode content of
                         None \<Rightarrow> (Some UnicodeEncodeError, f1)
                       | Some bs \<Rightarrow> (None, f1(q \<mapsto> File bs))))"

subsection \<open>\<open>Workspace\<close>\<close>

record Workspace =
  root :: path
  ignore_patterns :: "string list"

definition Workspace_init :: "string list \<Rightarrow> string list \<Rightarrow> Workspace" where
  "Workspace_init r patterns =
     \<lparr> root = resolve r,
       ignore_patterns = foldl (\<lambda>ps p. if p \<in> set ps then ps else ps @ [p]) patterns
         [''__pycache__'', ''*.pyc'', ''.git'', ''.venv'', ''venv'', ''node_modules''] \<rparr>"

text \<open>
  The security check of the three operations: \<open>full_path = self.root / filepath\<close>, then
  \<open>ValueError\<close> unless \<open>full_path.resolve().is_relative_to(self.root)\<close>. \<open>resolve\<close> itself
  raises \<open>ValueError\<close> on an embedded null character.
\<close>

definition check_path :: "Workspace \<Rightarrow> string \<Rightarrow> exn + string list" where
  "check_path ws filepath =
     (let full_path = joinpath (root ws) filepath
      in if CHR 0x00 \<in> set filepath then Inl ValueError
         else if \<not> is_relative_to (resolve full_path) (root ws) then Inl ValueError
         else Inr full_path)"

definition read_file :: "Workspace \<Rightarrow> fs \<Rightarrow> string \<Rightarrow> str option" where
  "read_file ws f filepath =
     (case check_path ws filepath of
        Inl _ \<Rightarrow> None
      | Inr full_path \<Rightarrow>
          (case read_text UTF8 f full_path of
             Inr t \<Rightarrow> Some t
           | Inl UnicodeDecodeError \<Rightarrow>
               (case read_text Latin1 f full_path of Inr t \<Rightarrow> Some t | Inl _ \<Rightarrow> None)
           | Inl _ \<Rightarrow> None))"

definition write_file :: "Workspace \<Rightarrow> fs \<Rightarrow> string \<Rightarrow> str \<Rightarrow> bool \<times> fs" where
  "write_file ws f filepath content =
     (case check_path ws filepath of
        Inl _ \<Rightarrow> (False, f)
      | Inr full_path \<Rightarrow>
          (case mkdir_parents f (butlast full_path) of
             (Some _, f1) \<Rightarrow> (False, f1)
           | (None, f1) \<Rightarrow>
               (case write_text f1 full_path content of
                  (Some _, f2) \<Rightarrow> (False, f2)
                | (None, f2) \<Rightarrow> (True, f2))))"

definition delete_file :: "Workspace \<Rightarrow> fs \<Rightarrow> string \<Rightarrow> bool \<times> fs" where
  "delete_file ws f filepath =
     (case check_path ws filepath of
        Inl _ \<Rightarrow> (False, f)
      | Inr full_path \<Rightarrow>
          if path_exists f full_path then
            (case os_unlink f full_path of Inl _ \<Rightarrow> (False, f) | Inr f' \<Rightarrow> (True, f'))
          else (False, f))"

subsection \<open>A small workspace\<close>

definition example_fs :: fs where
  "example_fs =
     Map.empty([] \<mapsto> Dir, [''etc''] \<mapsto> Dir, [''etc'', ''passwd''] \<mapsto> File [114, 111, 111, 116],
       [''home''] \<mapsto> Dir, [''home'', ''ws''] \<mapsto> Dir, [''home'', ''ws'', ''docs''] \<mapsto> Dir,
       [''home'', ''ws'', ''docs'', ''readme.md''] \<mapsto> File [35, 32, 104, 105],
       [''home'', ''ws'', ''notes.txt''] \<mapsto> File [104, 105],
       [''home'', ''ws'', ''legacy.txt''] \<mapsto> File [99, 97, 102, 233, 13, 10])"

definition example_ws :: Workspace where
  "example_ws = Workspace_init [''home'', ''ws''] []"

section \<open>The agent: \<open>cobalt/agent.py\<close>\<close>

subsection \<open>String operations\<close>

definition lower_char :: "char \<Rightarrow> char" where
  "lower_char c = (if 65 \<le> (of_char c :: nat) \<and> (of_char c :: nat) \<le> 90
                   then char_of ((of_char c :: nat) + 32) else c)"

definition lower :: "string \<Rightarrow> string" where
  "lower s = map lower_char s"

text \<open>\<open>sub in s\<close>.\<close>

fun contains :: "string \<Rightarrow> string \<Rightarrow> bool" where
  "contains [] sub = (sub = [])"
| "contains (c # cs) sub = (startswith (c # cs) sub \<or> contains cs sub)"

text \<open>\<open>s.strip()\<close>.\<close>

definition strip :: "string \<Rightarrow> string" where
  "strip s = rev (dropWhile str_whitespace (rev (dropWhile str_whitespace s)))"

text \<open>\<open>s.count(c)\<close> for a single character.\<close>

definition count_char :: "char \<Rightarrow> string \<Rightarrow> nat" where
  "count_char c s = length (filter (\<lambda>x. x = c) s)"

text \<open>
  The texts that follow the non-overlapping occurrences of a literal pattern, found
  from the left (\<open>re.finditer\<close> of an escaped literal, \<open>str.split\<close>): the first argument
  counts the characters still covered by the occurrence found last.
\<close>

fun after_matches :: "string \<Rightarrow> nat \<Rightarrow> string \<Rightarrow> string list" where
  "after_matches pat skip [] = []"
| "after_matches pat skip (c # cs) =
     (if 0 < skip then after_matches pat (skip - 1) cs
      else if startswith (c # cs) pat
           then drop (length pat) (c # cs) # after_matches pat (length pat - 1) cs
           else after_matches pat 0 cs)"

text \<open>\<open>s.split(sep)[-1]\<close> and \<open>s.split(sep)[0]\<close>, for a non-empty separator.\<close>

definition split_last :: "string \<Rightarrow> string \<Rightarrow> string" where
  "split_last sep s = (case after_matches sep 0 s of [] \<Rightarrow> s | ms \<Rightarrow> last ms)"

fun split_first :: "string \<Rightarrow> string \<Rightarrow> string" where
  "split_first sep [] = []"
| "split_first sep (c # cs) = (if startswith (c # cs) sep then [] else c # split_first sep cs)"

subsection \<open>\<open>json.loads\<close>\<close>

text \<open>
  A parsed JSON document. A number with a fraction or an exponent is kept as its
  lexeme; an object is the list of its keys in the order of their first occurrence,
  each with the value given last (a Python \<open>dict\<close>).
\<close>

datatype json =
    JNull
  | JBool bool
  | JInt int
  | JFloat string
  | JStr string
  | JArr "json list"
  | JObj "(string \<times> json) list"

fun dict_set :: "(string \<times> json) list \<Rightarrow> string \<Rightarrow> json \<Rightarrow> (string \<times> json) list" where
  "dict_set [] k v = [(k, v)]"
| "dict_set ((k', v') # kvs) k v = (if k' = k then (k, v) # kvs else (k', v') # dict_set kvs k v)"

definition json_ws :: "char \<Rightarrow> bool" where
  "json_ws c = (c \<in> set [CHR '' '', CHR 0x09, CHR 0x0A, CHR 0x0D])"

definition skip_ws :: "string \<Rightarrow> string" where
  "skip_ws s = dropWhile json_ws s"

definition is_digit :: "char \<Rightarrow> bool" where
  "is_digit c = (48 \<le> (of_char c :: nat) \<and> (of_char c :: nat) \<le> 57)"

definition digit_val :: "char \<Rightarrow> nat" where
  "digit_val c = (of_char c :: nat) - 48"

definition hex_val :: "char \<Rightarrow> nat option" where
  "hex_val c =
     (let n = (of_char c :: nat)
      in if 48 \<le> n \<and> n \<le> 57 then Some (n - 48)
         else if 65 \<le> n \<and> n \<le> 70 then Some (n - 55)
         else if 97 \<le> n \<and> n \<le> 102 then Some (n - 87)
         else None)"

definition hex4 :: "char \<Rightarrow> char \<Rightarrow> char \<Rightarrow> char \<Rightarrow> nat option" where
  "hex4 a b c d =
     (case (hex_val a, hex_val b, hex_val c, hex_val d) of
        (Some w, Some x, Some y, Some z) \<Rightarrow> Some (w * 4096 + x * 256 + y * 16 + z)
      | _ \<Rightarrow> None)"

text \<open>
  The character a \<open>\uXXXX\<close> escape stands for, as the bytes of its UTF-8 encoding (a
  lone surrogate as three bytes of the same scheme).
\<close>

definition chr_bytes :: "nat \<Rightarrow> string" where
  "chr_bytes n =
     map char_of (case utf8_encode_cp n of
                    Some bs \<Rightarrow> bs
                  | None \<Rightarrow> [0xE0 + n div 4096, 0x80 + (n div 64) mod 64, 0x80 + n mod 64])"

definition unescape :: "char \<Rightarrow> char option" where
  "unescape e =
     (if e = CHR 0x22 then Some (CHR 0x22)
      else if e = CHR 0x5C then Some (CHR 0x5C)
      else if e = CHR ''/'' then Some (CHR ''/'')
      else if e = CHR ''b'' then Some (CHR 0x08)
      else if e = CHR ''f'' then Some (CHR 0x0C)
      else if e = CHR ''n'' then Some (CHR 0x0A)
      else if e = CHR ''r'' then Some (CHR 0x0D)
      else if e = CHR ''t'' then Some (CHR 0x09)
      else None)"

text \<open>
  The body of a string, after its opening quote: up to the closing quote, with the
  escapes replaced. A control character, an unknown escape or the end of the text
  inside the string is an error.
\<close>

fun scanstring :: "string \<Rightarrow> string \<Rightarrow> (string \<times> string) option" where
  "scanstring acc [] = None"
| "scanstring acc (c # cs) =
     (if c = CHR 0x22 then Some (acc, cs)
      else if c = CHR 0x5C then
        (case cs of
           [] \<Rightarrow> None
         | e # r \<Rightarrow>
             if e = CHR ''u'' then
               (case r of
                  h1 # h2 # h3 # h4 # r1 \<Rightarrow>
                    (case hex4 h1 h2 h3 h4 of
                       None \<Rightarrow> None
                     | Some uni \<Rightarrow>
                         (case r1 of
                            b # u # l1 # l2 # l3 # l4 # r2 \<Rightarrow>
                              (case hex4 l1 l2 l3 l4 of
                                 Some uni2 \<Rightarrow>
                                   if 0xD800 \<le> uni \<and> uni \<le> 0xDBFF \<and> b = CHR 0x5C \<and> u = CHR ''u''
                                      \<and> 0xDC00 \<le> uni2 \<and> uni2 \<le> 0xDFFF
                                   then scanstring
                                     (acc @ chr_bytes (0x10000 + (uni - 0xD800) * 1024 + (uni2 - 0xDC00))) r2
                                   else scanstring (acc @ chr_bytes uni) r1
                               | None \<Rightarrow>
                                   if 0xD800 \<le> uni \<and> uni \<le> 0xDBFF \<and> b = CHR 0x5C \<and> u = CHR ''u''
                                   then None
                                   else scanstring (acc @ chr_bytes uni) r1)
                          | _ \<Rightarrow>
                              if 0xD800 \<le> uni \<and> uni \<le> 0xDBFF \<and> startswith r1 [CHR 0x5C, CHR ''u'']
                              then None
                              else scanstring (acc @ chr_bytes uni) r1))
                | _ \<Rightarrow> None)
             else (case unescape e of
                     None \<Rightarrow> None
                   | Some ch \<Rightarrow> scanstring (acc @ [ch]) r))
      else if (of_char c :: nat) < 0x20 then None
      else scanstring (acc @ [c]) cs)"

text \<open>
  A number is the longest text of the shape
  \<open>-?(0|[1-9][0-9]*)(\.[0-9]+)?([eE][-+]?[0-9]+)?\<close>.
\<close>

definition nat_of_digits :: "string \<Rightarrow> nat" where
  "nat_of_digits ds = foldl (\<lambda>a c. a * 10 + digit_val c) 0 ds"

definition scan_fraction :: "string \<Rightarrow> string \<times> string" where
  "scan_fraction s =
     (case s of
        d # f # r \<Rightarrow>
          if d = CHR ''.'' \<and> is_digit f
          then (d # takeWhile is_digit (f # r), dropWhile is_digit (f # r))
          else ([], s)
      | _ \<Rightarrow> ([], s))"

definition scan_exponent :: "string \<Rightarrow> string \<times> string" where
  "scan_exponent s =
     (case s of
        [] \<Rightarrow> ([], s)
      | e # x \<Rightarrow>
          if e = CHR ''e'' \<or> e = CHR ''E'' then
            (let sgn = (case x of [] \<Rightarrow> [] | p # _ \<Rightarrow> if p = CHR ''+'' \<or> p = CHR ''-'' then [p] else []);
                 y = drop (length sgn) x
             in (case y of
                   [] \<Rightarrow> ([], s)
                 | d # _ \<Rightarrow> if is_digit d
                            then (e # sgn @ takeWhile is_digit y, dropWhile is_digit y)
                            else ([], s)))
          else ([], s))"

definition scan_number :: "string \<Rightarrow> (json \<times> string) option" where
  "scan_number s =
     (let neg = (case s of [] \<Rightarrow> False | c # _ \<Rightarrow> c = CHR ''-'');
          s1 = (if neg then tl s else s)
      in (case s1 of
            [] \<Rightarrow> None
          | d # r \<Rightarrow>
              if \<not> is_digit d then None
              else
                (let ds = (if d = CHR ''0'' then [d] else d # takeWhile is_digit r);
                     r1 = (if d = CHR ''0'' then r else dropWhile is_digit r);
                     (frac, r2) = scan_fraction r1;
                     (ex, r3) = scan_exponent r2
                 in if frac = [] \<and> ex = []
                    then Some (JInt (if neg then - int (nat_of_digits ds) else int (nat_of_digits ds)), r3)
                    else Some (JFloat ((if neg then ''-'' else []) @ ds @ frac @ ex), r3))))"

definition scan_literal :: "string \<Rightarrow> (json \<times> string) option" where
  "scan_literal s =
     (if startswith s ''null'' then Some (JNull, drop 4 s)
      else if startswith s ''true'' then Some (JBool True, drop 4 s)
      else if startswith s ''false'' then Some (JBool False, drop 5 s)
      else (case scan_number s of
              Some x \<Rightarrow> Some x
            | None \<Rightarrow>
                if startswith s ''NaN'' then Some (JFloat ''NaN'', drop 3 s)
                else if startswith s ''Infinity'' then Some (JFloat ''Infinity'', drop 8 s)
                else if startswith s ''-Infinity'' then Some (JFloat ''-Infinity'', drop 9 s)
                else None))"

text \<open>
  The scanner. Its first argument bounds the number of nested and consecutive values
  still to be read; the length of the text is always enough, each of them taking a
  character. \<open>parse_array\<close> reads from the first element on, \<open>parse_object\<close> from the
  quote of the first key on. Python's limit on the nesting depth is not modelled.
\<close>

fun parse_value :: "nat \<Rightarrow> string \<Rightarrow> (json \<times> string) option"
  and parse_array :: "nat \<Rightarrow> json list \<Rightarrow> string \<Rightarrow> (json \<times> string) option"
  and parse_object :: "nat \<Rightarrow> (string \<times> json) list \<Rightarrow> string \<Rightarrow> (json \<times> string) option"
where
  "parse_value 0 s = None"
| "parse_value (Suc n) s =
     (case s of
        [] \<Rightarrow> None
      | c # cs \<Rightarrow>
          if c = CHR 0x22 then
            (case scanstring [] cs of None \<Rightarrow> None | Some (t, r) \<Rightarrow> Some (JStr t, r))
          else if c = CHR ''{'' then
            (case skip_ws cs of
               [] \<Rightarrow> None
             | d # r \<Rightarrow> if d = CHR ''}'' then Some (JObj [], r) else parse_object n [] (d # r))
          else if c = CHR ''['' then
            (case skip_ws cs of
               [] \<Rightarrow> None
             | d # r \<Rightarrow> if d = CHR '']'' then Some (JArr [], r) else parse_array n [] (d # r))
          else scan_literal s)"
| "parse_array 0 acc s = None"
| "parse_array (Suc n) acc s =
     (case parse_value n s of
        None \<Rightarrow> None
      | Some (v, r) \<Rightarrow>
          (case skip_ws r of
             [] \<Rightarrow> None
           | c # r1 \<Rightarrow>
               if c = CHR '']'' then Some (JArr (acc @ [v]), r1)
               else if c = CHR '','' then parse_array n (acc @ [v]) (skip_ws r1)
               else None))"
| "parse_object 0 acc s = None"
| "parse_object (Suc n) acc s =
     (case s of
        [] \<Rightarrow> None
      | q # cs \<Rightarrow>
          if q \<noteq> CHR 0x22 then None
          else
            (case scanstring [] cs of
               None \<Rightarrow> None
             | Some (k, r) \<Rightarrow>
                 (case skip_ws r of
                    [] \<Rightarrow> None
                  | c # r1 \<Rightarrow>
                      if c \<noteq> CHR '':'' then None
                      else
                        (case parse_value n (skip_ws r1) of
                           None \<Rightarrow> None
                         | Some (v, r2) \<Rightarrow>
                             (case skip_ws r2 of
                                [] \<Rightarrow> None
                              | d # r3 \<Rightarrow>
                                  if d = CHR ''}'' then Some (JObj (dict_set acc k v), r3)
                                  else if d = CHR '','' then parse_object n (dict_set acc k v) (skip_ws r3)
                                  else None)))))"

text \<open>\<open>json.loads(s)\<close>; \<open>None\<close> is \<open>JSONDecodeError\<close>.\<close>

definition json_loads :: "string \<Rightarrow> json option" where
  "json_loads s =
     (case parse_value (Suc (length s)) (skip_ws s) of
        None \<Rightarrow> None
      | Some (v, r) \<Rightarrow> if skip_ws r = [] then Some v else None)"

subsection \<open>\<open>CobaltAgent._extract_tool_calls\<close>\<close>

record ToolCall =
  tool_name :: json
  parameters :: json
  reasoning :: json

definition dict_get :: "(string \<times> json) list \<Rightarrow> string \<Rightarrow> json \<Rightarrow> json" where
  "dict_get kvs k dflt = (case map_of kvs k of Some v \<Rightarrow> v | None \<Rightarrow> dflt)"

text \<open>
  \<open>if isinstance(data, dict) and 'tool' in data\<close>: the \<open>ToolCall\<close> built from
  \<open>data['tool']\<close>, \<open>data.get('parameters', {})\<close> and \<open>data.get('reason', '')\<close>.
\<close>

definition to_call :: "json \<Rightarrow> ToolCall option" where
  "to_call data =
     (case data of
        JObj kvs \<Rightarrow>
          (case map_of kvs ''tool'' of
             None \<Rightarrow> None
           | Some t \<Rightarrow> Some \<lparr> tool_name = t,
                              parameters = dict_get kvs ''parameters'' (JObj []),
                              reasoning = dict_get kvs ''reason'' (JStr []) \<rparr>)
      | _ \<Rightarrow> None)"

text \<open>The calls a text gives when loaded as JSON: one, or none when it does not load.\<close>

definition loaded_call :: "string \<Rightarrow> ToolCall list" where
  "loaded_call s =
     (case json_loads s of
        None \<Rightarrow> []
      | Some data \<Rightarrow> (case to_call data of None \<Rightarrow> [] | Some tc \<Rightarrow> [tc]))"

text \<open>
  Method 1. \<open>re.findall(r'```json\s*\n(.*?)\n```', response, re.DOTALL | re.IGNORECASE)\<close>.
  At a position where the text reads \<open>```json\<close> (in any case), \<open>\s*\<close> takes the
  whitespace that follows and gives it back character by character until a newline
  is next; from there \<open>(.*?)\<close> runs to the first \<open>\n```\<close>. \<open>fence_match\<close> gives the
  group and the length of the match.
\<close>

definition fence :: string where
  "fence = replicate 3 (CHR 0x60)"

fun find_sub :: "string \<Rightarrow> string \<Rightarrow> nat option" where
  "find_sub pat [] = (if pat = [] then Some 0 else None)"
| "find_sub pat (c # cs) =
     (if startswith (c # cs) pat then Some 0 else map_option Suc (find_sub pat cs))"

fun first_some :: "('a \<Rightarrow> 'b option) \<Rightarrow> 'a list \<Rightarrow> 'b option" where
  "first_some f [] = None"
| "first_some f (x # xs) = (case f x of Some y \<Rightarrow> Some y | None \<Rightarrow> first_some f xs)"

definition fence_match :: "string \<Rightarrow> (string \<times> nat) option" where
  "fence_match s =
     (if \<not> startswith (lower s) (fence @ ''json'') then None
      else
        (let rest = drop 7 s;
             ws = takeWhile str_whitespace rest;
             newlines = rev (filter (\<lambda>k. rest ! k = CHR 0x0A) [0..<length ws])
         in first_some
              (\<lambda>k. case find_sub (CHR 0x0A # fence) (drop (Suc k) rest) of
                     None \<Rightarrow> None
                   | Some j \<Rightarrow> Some (take j (drop (Suc k) rest), 7 + Suc k + j + 4))
              newlines))"

fun findall_fence :: "nat \<Rightarrow> string \<Rightarrow> string list" where
  "findall_fence skip [] = []"
| "findall_fence skip (c # cs) =
     (if 0 < skip then findall_fence (skip - 1) cs
      else (case fence_match (c # cs) of
              Some (block, n) \<Rightarrow> block # findall_fence (n - 1) cs
            | None \<Rightarrow> findall_fence 0 cs))"

fun method1 :: "ToolCall list \<Rightarrow> string list \<Rightarrow> ToolCall list" where
  "method1 tool_calls [] = tool_calls"
| "method1 tool_calls (block # blocks) = method1 (tool_calls @ loaded_call (strip block)) blocks"

text \<open>
  The brace walk of methods 2 and 3, from an opening brace on: the number of
  characters up to and including the brace that brings the count back to 0.
\<close>

fun brace_scan :: "int \<Rightarrow> string \<Rightarrow> nat option" where
  "brace_scan brace_count [] = None"
| "brace_scan brace_count (c # cs) =
     (if c = CHR ''{'' then map_option Suc (brace_scan (brace_count + 1) cs)
      else if c = CHR ''}'' then
        (if brace_count - 1 = 0 then Some 1 else map_option Suc (brace_scan (brace_count - 1) cs))
      else map_option Suc (brace_scan brace_count cs))"

definition balanced_call :: "string \<Rightarrow> ToolCall list" where
  "balanced_call s =
     (case brace_scan 0 s of None \<Rightarrow> [] | Some n \<Rightarrow> loaded_call (take n s))"

text \<open>
  Method 2, for one match of a marker: \<open>s\<close> is the response from the end of the match
  on. Blanks, newlines and tabs are skipped; an opening brace must be next.
\<close>

definition marker_call :: "string \<Rightarrow> ToolCall list" where
  "marker_call s =
     (case dropWhile (\<lambda>c. c \<in> set [CHR '' '', CHR 0x0A, CHR 0x09]) s of
        [] \<Rightarrow> []
      | c # cs \<Rightarrow> if c = CHR ''{'' then balanced_call (c # cs) else [])"

definition special_patterns :: "string list" where
  "special_patterns = [''<|constrain|>json<|message|>'', ''<|message|>'']"

fun method2 :: "string list \<Rightarrow> string \<Rightarrow> ToolCall list" where
  "method2 [] response = []"
| "method2 (pattern # patterns) response =
     (let tool_calls = concat (map marker_call (after_matches pattern 0 response))
      in if tool_calls \<noteq> [] then tool_calls else method2 patterns response)"

text \<open>Method 3: the brace walk from every opening brace of the response.\<close>

fun method3 :: "ToolCall list \<Rightarrow> string \<Rightarrow> ToolCall list" where
  "method3 tool_calls [] = tool_calls"
| "method3 tool_calls (c # cs) =
     method3 (if c = CHR ''{'' then tool_calls @ balanced_call (c # cs) else tool_calls) cs"

definition extract_tool_calls :: "string \<Rightarrow> ToolCall list" where
  "extract_tool_calls response =
     (let tool_calls = method1 [] (findall_fence 0 response);
          tool_calls = (if tool_calls = [] then method2 special_patterns response else tool_calls);
          tool_calls = (if tool_calls = [] then method3 [] response else tool_calls)
      in tool_calls)"

subsection \<open>\<open>CobaltAgent.execute_task\<close>\<close>

record Message =
  role :: string
  content :: string

record LLMResponse =
  llm_success :: bool
  llm_content :: string
  latency_ms :: nat

text \<open>The calls \<open>execute_task\<close> makes on \<open>self.ui\<close>, and its one \<open>print\<close> of a recovered call.\<close>

datatype ui_event =
    PrintSeparator
  | PrintBold string
  | PrintInfo string
  | PrintSuccess string
  | PrintWarning string
  | PrintError string
  | Print string

text \<open>
  What \<open>execute_task\<close> calls and does not define: the model (\<open>self.llm.generate\<close>), the
  execution of one tool call (\<open>self._exec_tool\<close>, with the user's confirmation and the
  tool itself; \<open>None\<close> when it raises), Python's \<open>str\<close> of a parsed value, and the
  configuration. \<open>'w\<close> is the state of everything outside the agent.
\<close>

record 'w env =
  generate :: "'w \<Rightarrow> Message list \<Rightarrow> LLMResponse \<times> 'w"
  exec_tool :: "'w \<Rightarrow> ToolCall \<Rightarrow> nat \<Rightarrow> nat \<Rightarrow> string option \<times> 'w"
  str_of :: "json \<Rightarrow> string"
  system_prompt :: string
  workspace_name :: string

record 'w task_state =
  messages :: "Message list"
  ui :: "ui_event list"
  world :: "'w"

text \<open>How the loop over the turns was left.\<close>

datatype ending =
    LLMFailed
  | TaskCompleted
  | NotUnderstood
  | NoResults
  | TurnsExhausted
  | Raised

datatype 'w step = Continue "'w task_state" | Break ending "'w task_state"

definition done_words :: "string list" where
  "done_words = [''done'', ''completed'', ''finished'', ''success'', ''task completed'']"

text \<open>
  The repair of an incomplete object (\<open>for tag in [...]\<close>): the text after the last
  occurrence of the tag, stripped and cut at the next \<open><|\<close>, gets as many closing braces
  as it has opening braces too many, and is loaded.
\<close>

definition repaired :: "string \<Rightarrow> string" where
  "repaired json_part =
     (if count_char (CHR ''{'') json_part > count_char (CHR ''}'') json_part
      then json_part @ replicate (count_char (CHR ''{'') json_part - count_char (CHR ''}'') json_part) (CHR ''}'')
      else json_part)"

fun recover_tool_calls :: "string list \<Rightarrow> string \<Rightarrow> ToolCall list" where
  "recover_tool_calls [] ai_response = []"
| "recover_tool_calls (tag # tags) ai_response =
     (if contains ai_response tag then
        (case loaded_call (repaired (split_first ''<|'' (strip (split_last tag ai_response)))) of
           [] \<Rightarrow> recover_tool_calls tags ai_response
         | tool_calls \<Rightarrow> tool_calls)
      else recover_tool_calls tags ai_response)"

fun exec_all :: "'w env \<Rightarrow> 'w \<Rightarrow> nat \<Rightarrow> nat \<Rightarrow> ToolCall list \<Rightarrow> string list
    \<Rightarrow> string list option \<times> 'w" where
  "exec_all e w i n [] results = (Some results, w)"
| "exec_all e w i n (tc # tcs) results =
     (case exec_tool e w tc i n of
        (None, w') \<Rightarrow> (None, w')
      | (Some result, w') \<Rightarrow>
          exec_all e w' (Suc i) n tcs
            (if result \<noteq> [] then results @ [str_of e (tool_name tc) @ '': '' @ result] else results))"

definition results_msg :: "string list \<Rightarrow> string" where
  "results_msg results =
     ''Results:'' @ [CHR 0x5C, CHR ''n''] @ join [CHR 0x5C, CHR ''n''] results
       @ [CHR 0x5C, CHR ''n'', CHR 0x5C, CHR ''n''] @ ''Continue or say 'Task completed'.''"

definition ui_log :: "ui_event list \<Rightarrow> 'w task_state \<Rightarrow> 'w task_state" where
  "ui_log evs st = st\<lparr> ui := ui st @ evs \<rparr>"

text \<open>The body of \<open>for turn in range(1, max_turns + 1)\<close>.\<close>

definition turn_body :: "'w env \<Rightarrow> 'w task_state \<Rightarrow> 'w step" where
  "turn_body e st =
     (let (response, w1) = generate e (world st) (messages st);
          st1 = ui_log [PrintInfo ''Requesting AI action...''] (st\<lparr> world := w1 \<rparr>)
      in if \<not> llm_success response then Break LLMFailed (ui_log [PrintError ''LLM failed''] st1)
         else
           (let ai_response = llm_content response;
                st2 = ui_log [PrintSuccess (''Response ('' @ str_nat (latency_ms response) @ ''ms)'')] st1;
                st3 = st2\<lparr> messages := messages st2 @ [\<lparr> role = ''assistant'', content = ai_response \<rparr>] \<rparr>;
                tool_calls = extract_tool_calls ai_response
            in if tool_calls = []
                  \<and> (contains ai_response ''<|constrain|>json<|message|>''
                       \<or> contains ai_response ''<|message|>'')
               then
                 (let recovered = recover_tool_calls special_patterns ai_response;
                      st4 = ui_log (map (\<lambda>tc. Print (''Recovered tool call: '' @ str_of e (tool_name tc)))
                                  recovered) st3
                  in if list_ex (\<lambda>word. contains (lower ai_response) word) done_words
                     then Break TaskCompleted (ui_log [PrintSuccess ''Task completed!''] st4)
                     else Break NotUnderstood
                       (ui_log [PrintWarning ''No tool calls detected. Model may not understand the format.''] st4))
               else
                 (case exec_all e (world st3) 1 (length tool_calls) tool_calls [] of
                    (None, w2) \<Rightarrow> Break Raised (st3\<lparr> world := w2 \<rparr>)
                  | (Some results, w2) \<Rightarrow>
                      if results \<noteq> []
                      then Continue (st3\<lparr> world := w2,
                             messages := messages st3 @ [\<lparr> role = ''user'', content = results_msg results \<rparr>] \<rparr>)
                      else Break NoResults (st3\<lparr> world := w2 \<rparr>))))"

record 'w task_result =
  ending :: ending
  turns_run :: "int list"
  final :: "'w task_state"

fun run_turns :: "'w env \<Rightarrow> int list \<Rightarrow> int list \<Rightarrow> 'w task_state \<Rightarrow> 'w task_result" where
  "run_turns e [] sofar st = \<lparr> ending = TurnsExhausted, turns_run = sofar, final = st \<rparr>"
| "run_turns e (turn # turns) sofar st =
     (case turn_body e st of
        Break how st' \<Rightarrow> \<lparr> ending = how, turns_run = sofar @ [turn], final = st' \<rparr>
      | Continue st' \<Rightarrow> run_turns e turns (sofar @ [turn]) st')"

definition execute_task :: "'w env \<Rightarrow> 'w \<Rightarrow> string \<Rightarrow> int \<Rightarrow> 'w task_result" where
  "execute_task e w task max_turns =
     (let st0 = \<lparr> messages =
                   [\<lparr> role = ''system'', content = system_prompt e \<rparr>,
                    \<lparr> role = ''user'',
                      content = ''Task: '' @ task @ [CHR 0x5C, CHR ''n''] @ ''Workspace: '' @ workspace_name e \<rparr>],
                 ui = [PrintSeparator, PrintBold ''AGENT EXECUTION STARTED'', PrintSeparator,
                       PrintBold (''Task: '' @ task)],
                 world = w \<rparr>;
          r = run_turns e [1..max_turns] [] st0
      in if ending r = Raised then r
         else r\<lparr> final := ui_log [PrintSeparator, PrintBold ''AGENT EXECUTION COMPLETED'', PrintSeparator]
                               (final r) \<rparr>)"

text \<open>\<open>max_turns: int = 10\<close>.\<close>

definition execute_task_default :: "'w env \<Rightarrow> 'w \<Rightarrow> string \<Rightarrow> 'w task_result" where
  "execute_task_default e w task = execute_task e w task 10"

subsection \<open>A scripted model and tool\<close>

definition read_file_reply :: string where
  "read_file_reply =
     fence @ ''json'' @ [CHR 0x0A]
       @ ''{\"tool\":\"read_file\",\"parameters\":{\"filepath\":\"a.py\"}}'' @ [CHR 0x0A] @ fence"

definition example_str_of :: "json \<Rightarrow> string" where
  "example_str_of j = (case j of JStr s \<Rightarrow> s | _ \<Rightarrow> ''?'')"

text \<open>A model that gives the same reply on every turn, and a tool that always answers.\<close>

definition scripted_env :: "string \<Rightarrow> unit env" where
  "scripted_env reply =
     \<lparr> generate = (\<lambda>w ms. (\<lparr> llm_success = True, llm_content = reply, latency_ms = 5 \<rparr>, w)),
       exec_tool = (\<lambda>w tc i n. (Some ''ok'', w)),
       str_of = example_str_of,
       system_prompt = ''You MUST respond with tool calls.'',
       workspace_name = ''/home/ws'' \<rparr>"


text \<open>A reply with two objects and no fence or marker, and one cut off after a marker.\<close>

definition two_objects_reply :: string where
  "two_objects_reply = ''{\"tool\":\"a\"} {\"tool\":\"b\"}''"


text \<open>The \<open>ui\<close> calls that report a failure.\<close>

definition failure_event :: "ui_event \<Rightarrow> bool" where
  "failure_event ev = (case ev of PrintError _ \<Rightarrow> True | PrintWarning _ \<Rightarrow> True | _ \<Rightarrow> False)"

section \<open>Properties of command execution\<close>

lemma startswith_prefix: "startswith s p = prefix p s"
  by (induction s p rule: startswith.induct) auto

lemma command_allowed_prefix:
  "command_allowed t b = (\<exists>p \<in> set (allowed_commands t). prefix p b)"
  by (simp add: command_allowed_def list_ex_iff startswith_prefix)

lemma join_allowed:
  "join '', '' the_allowed_commands =
     ''python, python3, pip, pip3, node, npm, npx, ls, dir, cat, type, echo, git, pytest, test''"
  by (simp add: the_allowed_commands_def)

lemma split_rm: "split_command ''rm -rf /'' = [''rm'', ''-rf'', ''/'']"
  by (simp add: split_command_def shlex_split_def shlex_whitespace_def shlex_quote_def shlex_escape_def)

lemma split_python: "split_command ''python script.py'' = [''python'', ''script.py'']"
  by (simp add: split_command_def shlex_split_def shlex_whitespace_def shlex_quote_def shlex_escape_def)

lemma rm_not_allowed: "\<not> command_allowed (RunCommandTool_init True) ''rm''"
  by (simp add: command_allowed_def RunCommandTool_init_def the_allowed_commands_def)

lemma python_allowed: "command_allowed (RunCommandTool_init True) ''python''"
  by (simp add: command_allowed_def RunCommandTool_init_def the_allowed_commands_def)

text \<open>
  C2. In safe mode, a command whose first token has none of the allow-listed names as a
  prefix is refused with no process spawned, and the error text lists the allow-list;
  \<open>rm -rf /\<close> is refused so, while \<open>python script.py\<close> is handed to the operating
  system.
\<close>

theorem execute_safe_mode_allow_list:
  "(split_command command = base_command # args \<and>
      (\<forall>p \<in> set the_allowed_commands. \<not> prefix p base_command)
    \<longrightarrow> execute (RunCommandTool_init True) run command reason =
          (\<lparr> success = False, output_text = [],
             error = Some (''Command '' @ [CHR 0x27] @ base_command @ [CHR 0x27]
               @ '' not allowed in safe mode. Allowed: python, python3, pip, pip3, node, npm, npx, ls, dir, cat, type, echo, git, pytest, test''),
             metadata = [] \<rparr>, []))
   \<and> success (fst (execute (RunCommandTool_init True) run ''rm -rf /'' reason)) = False
   \<and> snd (execute (RunCommandTool_init True) run ''rm -rf /'' reason) = []
   \<and> execute (RunCommandTool_init True) run ''python script.py'' reason =
        (run_result ''python script.py'' reason ''python'' (run [''python'', ''script.py'']),
         [[''python'', ''script.py'']])"
proof (intro conjI impI)
  assume a: "split_command command = base_command # args \<and>
      (\<forall>p \<in> set the_allowed_commands. \<not> prefix p base_command)"
  then have "\<not> command_allowed (RunCommandTool_init True) base_command"
    by (simp add: command_allowed_prefix RunCommandTool_init_def)
  with a show "execute (RunCommandTool_init True) run command reason =
          (\<lparr> success = False, output_text = [],
             error = Some (''Command '' @ [CHR 0x27] @ base_command @ [CHR 0x27]
               @ '' not allowed in safe mode. Allowed: python, python3, pip, pip3, node, npm, npx, ls, dir, cat, type, echo, git, pytest, test''),
             metadata = [] \<rparr>, [])"
    using join_allowed
    by (simp add: execute_def failure_def not_allowed_error_def RunCommandTool_init_def)
next
  show "success (fst (execute (RunCommandTool_init True) run ''rm -rf /'' reason)) = False"
    using rm_not_allowed by (simp add: execute_def split_rm failure_def RunCommandTool_init_def)
next
  show "snd (execute (RunCommandTool_init True) run ''rm -rf /'' reason) = []"
    using rm_not_allowed by (simp add: execute_def split_rm RunCommandTool_init_def)
next
  show "execute (RunCommandTool_init True) run ''python script.py'' reason =
        (run_result ''python script.py'' reason ''python'' (run [''python'', ''script.py'']),
         [[''python'', ''script.py'']])"
    using python_allowed by (simp add: execute_def split_python)
qed

theorem execute_safe_mode_allow_list_witness:
  "split_command ''rm -rf /'' = ''rm'' # [''-rf'', ''/''] \<and>
   \<not> list_ex (\<lambda>p. prefix p ''rm'') the_allowed_commands \<and>
   execute (RunCommandTool_init True) (\<lambda>argv. Completed 0 [] []) ''rm -rf /'' ''cleanup'' =
     (\<lparr> success = False, output_text = [],
        error = Some ''Command 'rm' not allowed in safe mode. Allowed: python, python3, pip, pip3, node, npm, npx, ls, dir, cat, type, echo, git, pytest, test'',
        metadata = [] \<rparr>, [])"
proof -
  have h: "split_command ''rm -rf /'' = ''rm'' # [''-rf'', ''/''] \<and>
      (\<forall>p \<in> set the_allowed_commands. \<not> prefix p ''rm'')"
    by (simp add: split_rm the_allowed_commands_def)
  show ?thesis
    using h list_ex_iff [of "\<lambda>p. prefix p ''rm''" the_allowed_commands]
      execute_safe_mode_allow_list [of "''rm -rf /''" "''rm''" "[''-rf'', ''/'']" "\<lambda>argv. Completed 0 [] []" "''cleanup''"]
    by simp
qed

lemma execute_Nil:
  "split_command command = [] \<Longrightarrow> execute t run command reason = (failure ''Empty command'', [])"
  by (simp add: execute_def)

lemma execute_Cons:
  "split_command command = b # as \<Longrightarrow>
   execute t run command reason =
     (if safe_mode t \<and> \<not> command_allowed t b then (failure (not_allowed_error t b), [])
      else (run_result command reason b (run (b # as)), [b # as]))"
  by (simp add: execute_def)

lemma execute_shape:
  "(snd (execute t run command reason) = [] \<and> \<not> success (fst (execute t run command reason)))
   \<or> (\<exists>argv. snd (execute t run command reason) = [argv] \<and>
        fst (execute t run command reason) = run_result command reason (hd argv) (run argv))"
proof (cases "split_command command")
  case Nil
  then show ?thesis by (simp add: execute_Nil failure_def)
next
  case (Cons b as)
  then show ?thesis by (simp add: execute_Cons failure_def)
qed

lemma split_empty: "split_command ''   '' = []"
  by (simp add: split_command_def shlex_split_def shlex_whitespace_def shlex_quote_def shlex_escape_def)

lemma split_unclosed: "shlex_split ''echo \"a b'' = None \<and> split_command ''echo \"a b'' = [''echo'', [CHR 0x22, CHR ''a''], ''b'']"
  by (simp add: split_command_def shlex_split_def shlex_whitespace_def shlex_quote_def shlex_escape_def str_split_def str_whitespace_def)

lemma split_python_x: "split_command ''python x.py'' = [''python'', ''x.py'']"
  by (simp add: split_command_def shlex_split_def shlex_whitespace_def shlex_quote_def shlex_escape_def)

text \<open>
  C9. \<open>execute\<close> reports success exactly when a process was spawned and exited with
  code 0; a non-zero exit is a failure whose metadata carries the exit code; a timeout
  and a missing executable are failures with their own error texts; a command line with
  no token after splitting (shell-word splitting, or whitespace splitting when that
  raises) is the failure \<open>Empty command\<close>. \<open>execute\<close> is a total function: each of
  these is a returned \<open>ToolResult\<close>.
\<close>

theorem execute_outcomes:
  "(success (fst (execute t run command reason)) \<longleftrightarrow>
      (\<exists>argv out err. snd (execute t run command reason) = [argv] \<and> run argv = Completed 0 out err))
   \<and> (snd (execute t run command reason) = [argv] \<and> run argv = Completed rc out err \<and> rc \<noteq> 0
        \<longrightarrow> success (fst (execute t run command reason)) = False
          \<and> error (fst (execute t run command reason)) = Some (''Command exited with code '' @ str_int rc)
          \<and> map_of (metadata (fst (execute t run command reason))) ''returncode'' = Some (MInt rc))
   \<and> (snd (execute t run command reason) = [argv] \<and> run argv = TimeoutExpired
        \<longrightarrow> fst (execute t run command reason) =
             \<lparr> success = False, output_text = [],
               error = Some ''Command timed out after 60 seconds'', metadata = [] \<rparr>)
   \<and> (snd (execute t run command reason) = [argv] \<and> run argv = FileNotFoundError
        \<longrightarrow> fst (execute t run command reason) =
             \<lparr> success = False, output_text = [],
               error = Some (''Command not found: '' @ hd argv), metadata = [] \<rparr>)
   \<and> (split_command command = []
        \<longrightarrow> execute t run command reason =
             (\<lparr> success = False, output_text = [], error = Some ''Empty command'', metadata = [] \<rparr>, []))
   \<and> split_command command =
        (case shlex_split command of Some parts \<Rightarrow> parts | None \<Rightarrow> str_split command)"
proof -
  let ?e = "execute t run command reason"
  have spawned: "\<And>argv. snd ?e = [argv] \<Longrightarrow>
      fst ?e = run_result command reason (hd argv) (run argv)"
    using execute_shape [of t run command reason] by auto
  have unspawned: "snd ?e = [] \<Longrightarrow> \<not> success (fst ?e)"
    using execute_shape [of t run command reason] by auto
  have shape: "snd ?e = [] \<or> (\<exists>argv. snd ?e = [argv])"
    using execute_shape [of t run command reason] by auto
  have ok: "\<And>r. success (run_result command reason b r) \<longleftrightarrow> (\<exists>out err. r = Completed 0 out err)" for b
    by (auto simp: run_result_def failure_def Let_def split: proc_outcome.splits)
  have c1: "success (fst ?e) \<longleftrightarrow>
      (\<exists>argv out err. snd ?e = [argv] \<and> run argv = Completed 0 out err)"
    using shape spawned unspawned ok by (metis list.distinct(1))
  have c2: "snd ?e = [argv] \<and> run argv = Completed rc out err \<and> rc \<noteq> 0
        \<longrightarrow> success (fst ?e) = False
          \<and> error (fst ?e) = Some (''Command exited with code '' @ str_int rc)
          \<and> map_of (metadata (fst ?e)) ''returncode'' = Some (MInt rc)"
    using spawned [of argv] by (simp add: run_result_def Let_def)
  have c3: "snd ?e = [argv] \<and> run argv = TimeoutExpired
        \<longrightarrow> fst ?e = \<lparr> success = False, output_text = [],
               error = Some ''Command timed out after 60 seconds'', metadata = [] \<rparr>"
    using spawned [of argv] by (simp add: run_result_def failure_def)
  have c4: "snd ?e = [argv] \<and> run argv = FileNotFoundError
        \<longrightarrow> fst ?e = \<lparr> success = False, output_text = [],
               error = Some (''Command not found: '' @ hd argv), metadata = [] \<rparr>"
    using spawned [of argv] by (simp add: run_result_def failure_def)
  have c5: "split_command command = []
        \<longrightarrow> ?e = (\<lparr> success = False, output_text = [], error = Some ''Empty command'', metadata = [] \<rparr>, [])"
    by (simp add: execute_Nil failure_def)
  have c6: "split_command command =
        (case shlex_split command of Some parts \<Rightarrow> parts | None \<Rightarrow> str_split command)"
    by (simp add: split_command_def)
  from c1 c2 c3 c4 c5 c6 show ?thesis by blast
qed

theorem execute_outcomes_witness:
  "snd (execute (RunCommandTool_init False) (\<lambda>argv. Completed 3 [] ''boom'') ''python x.py'' []) = [[''python'', ''x.py'']]
   \<and> error (fst (execute (RunCommandTool_init False) (\<lambda>argv. Completed 3 [] ''boom'') ''python x.py'' []))
       = Some (''Command exited with code '' @ str_int 3)
   \<and> map_of (metadata (fst (execute (RunCommandTool_init False) (\<lambda>argv. Completed 3 [] ''boom'') ''python x.py'' [])))
         ''returncode'' = Some (MInt 3)
   \<and> snd (execute (RunCommandTool_init False) (\<lambda>argv. TimeoutExpired) ''python x.py'' []) = [[''python'', ''x.py'']]
   \<and> error (fst (execute (RunCommandTool_init False) (\<lambda>argv. TimeoutExpired) ''python x.py'' []))
       = Some ''Command timed out after 60 seconds''
   \<and> snd (execute (RunCommandTool_init False) (\<lambda>argv. FileNotFoundError) ''python x.py'' []) = [[''python'', ''x.py'']]
   \<and> error (fst (execute (RunCommandTool_init False) (\<lambda>argv. FileNotFoundError) ''python x.py'' []))
       = Some (''Command not found: '' @ ''python'')
   \<and> split_command ''   '' = []
   \<and> error (fst (execute (RunCommandTool_init False) (\<lambda>argv. TimeoutExpired) ''   '' [])) = Some ''Empty command''"
proof -
  let ?t = "RunCommandTool_init False"
  have s1: "\<And>run. snd (execute ?t run ''python x.py'' []) = [[''python'', ''x.py'']]"
    by (simp add: execute_Cons [OF split_python_x] RunCommandTool_init_def)
  have s2: "split_command ''   '' = []" by (rule split_empty)
  show ?thesis
    using s1 s2
      execute_outcomes [of ?t "\<lambda>argv. Completed 3 [] ''boom''" "''python x.py''" "[]" "[''python'', ''x.py'']" 3 "[]" "''boom''"]
      execute_outcomes [of ?t "\<lambda>argv. TimeoutExpired" "''python x.py''" "[]" "[''python'', ''x.py'']"]
      execute_outcomes [of ?t "\<lambda>argv. FileNotFoundError" "''python x.py''" "[]" "[''python'', ''x.py'']"]
      execute_outcomes [of ?t "\<lambda>argv. TimeoutExpired" "''   ''" "[]"]
    by simp
qed

section \<open>Properties of the workspace\<close>

subsection \<open>UTF-8 decoding inverts encoding\<close>

lemma recombine: "(x::nat) * 64 + y = d \<Longrightarrow> d * 64 + z = c \<Longrightarrow> x * 4096 + y * 64 + z = c"
  by linarith

lemma r3: "(c::nat) div 4096 * 4096 + (c div 64) mod 64 * 64 + c mod 64 = c"
proof -
  have "c div (64 * 64) = c div 64 div 64" by (rule div_mult2_eq)
  then have a: "c div 4096 = c div 64 div 64" by simp
  have b: "c div 64 div 64 * 64 + c div 64 mod 64 = c div 64" by (rule div_mult_mod_eq)
  have e: "c div 64 * 64 + c mod 64 = c" by (rule div_mult_mod_eq)
  show ?thesis unfolding a by (rule recombine [OF b e])
qed

lemma recombine4: "(x::nat) * 64 + y = d \<Longrightarrow> d * 4096 + z = c \<Longrightarrow> x * 262144 + y * 4096 + z = c"
  by linarith

lemma r4: "(c::nat) div 262144 * 262144 + (c div 4096) mod 64 * 4096 + ((c div 64) mod 64 * 64 + c mod 64) = c"
proof -
  have "c div (4096 * 64) = c div 4096 div 64" by (rule div_mult2_eq)
  then have a: "c div 262144 = c div 4096 div 64" by simp
  have b: "c div 4096 div 64 * 64 + c div 4096 mod 64 = c div 4096" by (rule div_mult_mod_eq)
  have "c div 4096 * 4096 + ((c div 64) mod 64 * 64 + c mod 64) = c"
    using r3 [of c] by (simp only: add.assoc)
  from recombine4 [OF b this] show ?thesis unfolding a .
qed

lemma dec1: "b < 0x80 \<Longrightarrow> utf8_decode (b # r) = map_option (Cons b) (utf8_decode r)"
  by simp

lemma dec2:
  "2 \<le> a \<Longrightarrow> a < 32 \<Longrightarrow> m < 64 \<Longrightarrow>
   utf8_decode ((0xC0 + a) # (0x80 + m) # r) = map_option (Cons (a * 64 + m)) (utf8_decode r)"
  by (simp add: continuation_def)

lemma dec3:
  "a < 16 \<Longrightarrow> m1 < 64 \<Longrightarrow> m2 < 64 \<Longrightarrow> 0x800 \<le> a * 4096 + m1 * 64 + m2 \<Longrightarrow>
   \<not> (0xD800 \<le> a * 4096 + m1 * 64 + m2 \<and> a * 4096 + m1 * 64 + m2 \<le> 0xDFFF) \<Longrightarrow>
   utf8_decode ((0xE0 + a) # (0x80 + m1) # (0x80 + m2) # r) =
     map_option (Cons (a * 4096 + m1 * 64 + m2)) (utf8_decode r)"
  by (simp add: continuation_def Let_def)

lemma dec4:
  "a < 5 \<Longrightarrow> m1 < 64 \<Longrightarrow> m2 < 64 \<Longrightarrow> m3 < 64 \<Longrightarrow>
   0x10000 \<le> a * 262144 + m1 * 4096 + (m2 * 64 + m3) \<Longrightarrow>
   a * 262144 + m1 * 4096 + (m2 * 64 + m3) < 0x110000 \<Longrightarrow>
   utf8_decode ((0xF0 + a) # (0x80 + m1) # (0x80 + m2) # (0x80 + m3) # r) =
     map_option (Cons (a * 262144 + m1 * 4096 + (m2 * 64 + m3))) (utf8_decode r)"
  by (simp add: continuation_def Let_def add.assoc)

lemma utf8_decode_encode_cp:
  assumes a: "utf8_encode_cp c = Some e"
  shows "utf8_decode (e @ r) = map_option (Cons c) (utf8_decode r)"
proof -
  consider (one) "c < 0x80" | (two) "0x80 \<le> c" "c < 0x800" | (three) "0x800 \<le> c" "c < 0x10000"
    | (four) "0x10000 \<le> c" "c < 0x110000" | (big) "0x110000 \<le> c"
    by linarith
  then show ?thesis
  proof cases
    case one
    with a have "e = [c]" by (simp add: utf8_encode_cp_def)
    with one show ?thesis by (simp add: dec1)
  next
    case two
    with a have e: "e = [0xC0 + c div 64, 0x80 + c mod 64]" by (simp add: utf8_encode_cp_def)
    have d1: "2 \<le> c div 64" using two(1) by (simp add: less_eq_div_iff_mult_less_eq)
    have d2: "c div 64 < 32" using two(2) by (simp add: div_less_iff_less_mult)
    have m: "c mod 64 < 64" by simp
    have r: "c div 64 * 64 + c mod 64 = c" by (rule div_mult_mod_eq)
    show ?thesis unfolding e using dec2 [OF d1 d2 m, of r] by (simp only: r append.simps)
  next
    case three
    with a have e: "e = [0xE0 + c div 4096, 0x80 + (c div 64) mod 64, 0x80 + c mod 64]"
      and ns: "\<not> (0xD800 \<le> c \<and> c \<le> 0xDFFF)"
      by (simp_all add: utf8_encode_cp_def split: if_splits)
    have d: "c div 4096 < 16" using three(2) by (simp add: div_less_iff_less_mult)
    have m1: "c div 64 mod 64 < 64" and m2: "c mod 64 < 64" by simp_all
    note r = r3 [of c]
    have lo: "0x800 \<le> c div 4096 * 4096 + c div 64 mod 64 * 64 + c mod 64"
      unfolding r by (rule three(1))
    have nsr: "\<not> (0xD800 \<le> c div 4096 * 4096 + c div 64 mod 64 * 64 + c mod 64
        \<and> c div 4096 * 4096 + c div 64 mod 64 * 64 + c mod 64 \<le> 0xDFFF)"
      unfolding r by (rule ns)
    show ?thesis unfolding e using dec3 [OF d m1 m2 lo nsr, of r] by (simp only: r append.simps)
  next
    case four
    with a have e: "e = [0xF0 + c div 262144, 0x80 + (c div 4096) mod 64,
        0x80 + (c div 64) mod 64, 0x80 + c mod 64]"
      by (simp add: utf8_encode_cp_def)
    have d: "c div 262144 < 5" using four(2) by (simp add: div_less_iff_less_mult)
    have m1: "c div 4096 mod 64 < 64" and m2: "c div 64 mod 64 < 64" and m3: "c mod 64 < 64"
      by simp_all
    note r = r4 [of c]
    have lo: "0x10000 \<le> c div 262144 * 262144 + c div 4096 mod 64 * 4096 + (c div 64 mod 64 * 64 + c mod 64)"
      unfolding r by (rule four(1))
    have hi: "c div 262144 * 262144 + c div 4096 mod 64 * 4096 + (c div 64 mod 64 * 64 + c mod 64) < 0x110000"
      unfolding r by (rule four(2))
    show ?thesis unfolding e using dec4 [OF d m1 m2 m3 lo hi, of r] by (simp only: r append.simps)
  next
    case big
    with a show ?thesis by (simp add: utf8_encode_cp_def)
  qed
qed

lemma utf8_decode_encode: "utf8_encode c = Some bs \<Longrightarrow> utf8_decode bs = Some c"
proof (induction c arbitrary: bs)
  case Nil
  then show ?case by simp
next
  case (Cons x xs)
  then obtain e es where e: "utf8_encode_cp x = Some e" and es: "utf8_encode xs = Some es"
    and bs: "bs = e @ es"
    by (auto split: option.splits)
  show ?case using Cons.IH [OF es] utf8_decode_encode_cp [OF e, of es] bs by simp
qed

subsection \<open>Path resolution and the file system\<close>

lemma universal_newlines_id: "13 \<notin> set c \<Longrightarrow> universal_newlines c = c"
  by (induction c rule: universal_newlines.induct) simp_all

lemma walk_update_file:
  "walk f cur p = Inr q \<Longrightarrow> f q \<noteq> Some Dir \<Longrightarrow> walk (f(q \<mapsto> File bs)) cur p = Inr q"
proof (induction p arbitrary: cur)
  case Nil
  then show ?case by simp
next
  case (Cons c cs)
  from Cons.prems(1) have d: "f cur = Some Dir"
    by (simp split: option.splits node.splits)
  with Cons.prems(2) have ne: "cur \<noteq> q" by auto
  from Cons.prems(1) d have "walk f (if c = ''..'' then butlast cur else cur @ [c]) cs = Inr q"
    by simp
  from Cons.IH [OF this Cons.prems(2)] d ne show ?case by simp
qed



lemma check_path_outside:
  "\<not> is_relative_to (resolve (joinpath (root ws) filepath)) (root ws) \<Longrightarrow>
   check_path ws filepath = Inl ValueError"
  by (simp add: check_path_def Let_def)

lemma check_path_Inr:
  "check_path ws filepath = Inr full \<Longrightarrow>
   full = joinpath (root ws) filepath \<and> prefix (root ws) (resolve full)"
  by (simp add: check_path_def Let_def is_relative_to_def split: if_splits)

lemma write_text_ok:
  assumes "write_text f p c = (None, f')"
  shows "\<exists>q bs. locate f p = Inr q \<and> f q \<noteq> Some Dir \<and> utf8_encode c = Some bs
           \<and> f' = f(q \<mapsto> File bs)"
proof -
  from assms obtain q f1 where o: "open_w f p = Inr (q, f1)"
    by (auto simp: write_text_def split: sum.splits)
  then have l: "locate f p = Inr q" and nd: "f q \<noteq> Some Dir" and f1: "f1 = f(q \<mapsto> File [])"
    by (auto simp: open_w_def split: sum.splits option.splits node.splits)
  from assms o obtain bs where e: "utf8_encode c = Some bs" and f': "f' = f1(q \<mapsto> File bs)"
    by (auto simp: write_text_def split: option.splits)
  from l nd e f' f1 show ?thesis by auto
qed

lemma write_file_ok:
  assumes "write_file ws f filepath c = (True, f')"
  shows "\<exists>f1 q bs. check_path ws filepath = Inr (joinpath (root ws) filepath)
           \<and> mkdir_parents f (butlast (joinpath (root ws) filepath)) = (None, f1)
           \<and> locate f1 (joinpath (root ws) filepath) = Inr q \<and> f1 q \<noteq> Some Dir
           \<and> utf8_encode c = Some bs \<and> f' = f1(q \<mapsto> File bs)"
proof -
  from assms obtain full where cp: "check_path ws filepath = Inr full"
    by (auto simp: write_file_def split: sum.splits)
  then have full: "full = joinpath (root ws) filepath" by (simp add: check_path_Inr)
  from assms cp obtain f1 where mk: "mkdir_parents f (butlast full) = (None, f1)"
    by (auto simp: write_file_def split: prod.splits option.splits)
  from assms cp mk have "write_text f1 full c = (None, f')"
    by (auto simp: write_file_def split: prod.splits option.splits)
  from write_text_ok [OF this] cp mk full show ?thesis by auto
qed

lemma read_after_write:
  assumes "write_file ws f filepath c = (True, f')"
  shows "read_file ws f' filepath = Some (universal_newlines c)"
proof -
  let ?full = "joinpath (root ws) filepath"
  from write_file_ok [OF assms] obtain f1 q bs where
    cp: "check_path ws filepath = Inr ?full"
    and l: "locate f1 ?full = Inr q" and nd: "f1 q \<noteq> Some Dir"
    and e: "utf8_encode c = Some bs" and f': "f' = f1(q \<mapsto> File bs)"
    by blast
  from l nd have "locate f' ?full = Inr q"
    unfolding f' locate_def by (rule walk_update_file)
  then have "read_bytes f' ?full = Inr bs" by (simp add: read_bytes_def f')
  then have "read_text UTF8 f' ?full = Inr (universal_newlines c)"
    by (simp add: read_text_def decode_def utf8_decode_encode [OF e])
  with cp show ?thesis by (simp add: read_file_def)
qed

subsection \<open>Containment, deletion, and reading back what was written\<close>

lemmas path_eval = check_path_def Let_def joinpath_def is_absolute_def path_parts_def resolve_def
  is_relative_to_def example_ws_def Workspace_init_def
lemmas fs_eval = locate_def path_exists_def is_dir_def os_unlink_def os_mkdir_def read_bytes_def
  open_w_def example_fs_def

lemma traversal_outside:
  "resolve (joinpath [''home'', ''ws''] ''../../etc/passwd'') = [''etc'', ''passwd'']"
  by (simp add: path_eval)

text \<open>
  C1. A path that resolves, against the workspace root, to a location the root is not a
  prefix of is refused by all three operations through their results: \<open>read_file\<close>
  returns \<open>None\<close>, \<open>write_file\<close> and \<open>delete_file\<close> return \<open>False\<close>, and the file
  system they return is the one they were given. \<open>../../etc/passwd\<close> is such a path.
\<close>

theorem outside_root_rejected:
  "(\<not> prefix (root ws) (resolve (joinpath (root ws) filepath))
      \<longrightarrow> read_file ws f filepath = None
        \<and> write_file ws f filepath body = (False, f)
        \<and> delete_file ws f filepath = (False, f))
   \<and> \<not> prefix [''home'', ''ws''] (resolve (joinpath [''home'', ''ws''] ''../../etc/passwd''))"
proof (intro conjI impI)
  assume "\<not> prefix (root ws) (resolve (joinpath (root ws) filepath))"
  then have c: "check_path ws filepath = Inl ValueError"
    by (simp add: check_path_outside is_relative_to_def)
  show "read_file ws f filepath = None" by (simp add: read_file_def c)
  show "write_file ws f filepath body = (False, f)" by (simp add: write_file_def c)
  show "delete_file ws f filepath = (False, f)" by (simp add: delete_file_def c)
next
  show "\<not> prefix [''home'', ''ws''] (resolve (joinpath [''home'', ''ws''] ''../../etc/passwd''))"
    by (simp add: traversal_outside)
qed

lemma example_root: "root example_ws = [''home'', ''ws'']"
  by (simp add: example_ws_def Workspace_init_def resolve_def)

theorem outside_root_rejected_witness:
  "read_file example_ws example_fs ''../../etc/passwd'' = None
   \<and> write_file example_ws example_fs ''../../etc/passwd'' [120] = (False, example_fs)
   \<and> delete_file example_ws example_fs ''../../etc/passwd'' = (False, example_fs)"
proof -
  have h: "\<not> prefix (root example_ws) (resolve (joinpath (root example_ws) ''../../etc/passwd''))"
    by (simp add: example_root traversal_outside)
  show ?thesis
    using h outside_root_rejected [of example_ws "''../../etc/passwd''" example_fs "[120]"]
    by simp
qed






lemma read_file_fallback:
  assumes cp: "check_path ws filepath = Inr full" and rb: "read_bytes f full = Inr bs"
  shows "read_file ws f filepath =
     Some (universal_newlines (case utf8_decode bs of Some t \<Rightarrow> t | None \<Rightarrow> bs))"
  using cp rb
  by (simp add: read_file_def read_text_def decode_def latin1_decode_def split: option.splits)

text \<open>
  C8, as the code has it. After a successful \<open>write_file\<close>, \<open>read_file\<close> of the same
  path returns the body with universal newlines applied, so the body itself
  when it holds no carriage return; the file then holds exactly the UTF-8 encoding of
  the body. A readable file whose bytes are not UTF-8 is read as Latin-1, and a
  readable file inside the workspace is never reported as not found.
\<close>

theorem write_then_read:
  "(write_file ws f filepath body = (True, f') \<and> 13 \<notin> set body
      \<longrightarrow> read_file ws f' filepath = Some body)
   \<and> (write_file ws f filepath body = (True, f')
      \<longrightarrow> read_file ws f' filepath = Some (universal_newlines body)
        \<and> (\<exists>q bs. locate f' (joinpath (root ws) filepath) = Inr q
              \<and> utf8_encode body = Some bs \<and> f' q = Some (File bs)))
   \<and> (CHR 0x00 \<notin> set filepath \<and> prefix (root ws) (resolve (joinpath (root ws) filepath))
        \<and> read_bytes f (joinpath (root ws) filepath) = Inr bs \<and> utf8_decode bs = None
      \<longrightarrow> read_file ws f filepath = Some (universal_newlines bs))
   \<and> (CHR 0x00 \<notin> set filepath \<and> prefix (root ws) (resolve (joinpath (root ws) filepath))
        \<and> read_bytes f (joinpath (root ws) filepath) = Inr bs
      \<longrightarrow> read_file ws f filepath \<noteq> None)"
proof (intro conjI impI)
  assume "write_file ws f filepath body = (True, f') \<and> 13 \<notin> set body"
  then show "read_file ws f' filepath = Some body"
    using read_after_write [of ws f filepath body f'] universal_newlines_id [of body]
    by simp
next
  assume "write_file ws f filepath body = (True, f')"
  then show "read_file ws f' filepath = Some (universal_newlines body)"
    by (rule read_after_write)
next
  assume a: "write_file ws f filepath body = (True, f')"
  let ?full = "joinpath (root ws) filepath"
  from write_file_ok [OF a] obtain f1 q bs where
    l: "locate f1 ?full = Inr q" and nd: "f1 q \<noteq> Some Dir"
    and e: "utf8_encode body = Some bs" and f': "f' = f1(q \<mapsto> File bs)"
    by blast
  from l nd have "locate f' ?full = Inr q"
    unfolding f' locate_def by (rule walk_update_file)
  with e f' show "\<exists>q bs. locate f' ?full = Inr q \<and> utf8_encode body = Some bs
      \<and> f' q = Some (File bs)"
    by auto
next
  assume a: "CHR 0x00 \<notin> set filepath \<and> prefix (root ws) (resolve (joinpath (root ws) filepath))
        \<and> read_bytes f (joinpath (root ws) filepath) = Inr bs \<and> utf8_decode bs = None"
  then have "check_path ws filepath = Inr (joinpath (root ws) filepath)"
    by (simp add: check_path_def Let_def is_relative_to_def)
  from read_file_fallback [OF this, of f bs] a
  show "read_file ws f filepath = Some (universal_newlines bs)" by simp
next
  assume a: "CHR 0x00 \<notin> set filepath \<and> prefix (root ws) (resolve (joinpath (root ws) filepath))
        \<and> read_bytes f (joinpath (root ws) filepath) = Inr bs"
  then have "check_path ws filepath = Inr (joinpath (root ws) filepath)"
    by (simp add: check_path_def Let_def is_relative_to_def)
  from read_file_fallback [OF this, of f bs] a
  show "read_file ws f filepath \<noteq> None" by simp
qed

lemma mkdir_existing: "is_dir f p \<Longrightarrow> mkdir_parents f p = (None, f)"
  by (auto simp: mkdir_parents.simps [of f p] is_dir_def os_mkdir_def split: sum.splits option.splits)

lemma write_new_file:
  "write_file example_ws example_fs ''src/pkg/a.txt'' [104, 233, 10, 8364] =
     (True, example_fs([''home'', ''ws'', ''src''] \<mapsto> Dir, [''home'', ''ws'', ''src'', ''pkg''] \<mapsto> Dir,
        [''home'', ''ws'', ''src'', ''pkg'', ''a.txt''] \<mapsto> File [104, 195, 169, 10, 226, 130, 172]))"
  apply (simp add: write_file_def path_eval)
  apply (simp add: mkdir_parents.simps [of _ "[''home'', ''ws'', ''src'', ''pkg'']"]
      mkdir_parents.simps [of _ "[''home'', ''ws'', ''src'']"] fs_eval write_text_def utf8_encode_cp_def)
  done

lemma legacy_hyp:
  "CHR 0x00 \<notin> set ''legacy.txt''
   \<and> prefix (root example_ws) (resolve (joinpath (root example_ws) ''legacy.txt''))
   \<and> read_bytes example_fs (joinpath (root example_ws) ''legacy.txt'') = Inr [99, 97, 102, 233, 13, 10]
   \<and> utf8_decode [99, 97, 102, 233, 13, 10] = None"
  by (simp add: example_root) (simp add: path_eval fs_eval continuation_def)

lemma write_cr:
  "write_file example_ws example_fs ''a.txt'' [97, 13, 98] =
     (True, example_fs([''home'', ''ws'', ''a.txt''] \<mapsto> File [97, 13, 98]))"
  apply (simp add: write_file_def path_eval)
  apply (simp add: mkdir_parents.simps [of _ "[''home'', ''ws'']"] fs_eval write_text_def utf8_encode_cp_def)
  done

lemma read_cr:
  "read_file example_ws (example_fs([''home'', ''ws'', ''a.txt''] \<mapsto> File [97, 13, 98])) ''a.txt''
     = Some [97, 10, 98]"
  apply (simp add: read_file_def path_eval)
  apply (simp add: read_text_def fs_eval decode_def)
  done

theorem write_then_read_witness:
  "write_file example_ws example_fs ''src/pkg/a.txt'' [104, 233, 10, 8364] =
     (True, example_fs([''home'', ''ws'', ''src''] \<mapsto> Dir, [''home'', ''ws'', ''src'', ''pkg''] \<mapsto> Dir,
        [''home'', ''ws'', ''src'', ''pkg'', ''a.txt''] \<mapsto> File [104, 195, 169, 10, 226, 130, 172]))
   \<and> read_file example_ws
        (example_fs([''home'', ''ws'', ''src''] \<mapsto> Dir, [''home'', ''ws'', ''src'', ''pkg''] \<mapsto> Dir,
          [''home'', ''ws'', ''src'', ''pkg'', ''a.txt''] \<mapsto> File [104, 195, 169, 10, 226, 130, 172]))
        ''src/pkg/a.txt'' = Some [104, 233, 10, 8364]
   \<and> read_file example_ws example_fs ''legacy.txt'' = Some [99, 97, 102, 233, 10]"
proof -
  have n: "13 \<notin> set [104, 233, 10, 8364::nat]" by simp
  have u: "universal_newlines [99, 97, 102, 233, 13, 10] = [99, 97, 102, 233, 10]" by simp
  show ?thesis
    using n u write_new_file legacy_hyp
      write_then_read [of example_ws example_fs "''src/pkg/a.txt''" "[104, 233, 10, 8364]"
        "example_fs([''home'', ''ws'', ''src''] \<mapsto> Dir, [''home'', ''ws'', ''src'', ''pkg''] \<mapsto> Dir,
          [''home'', ''ws'', ''src'', ''pkg'', ''a.txt''] \<mapsto> File [104, 195, 169, 10, 226, 130, 172])"]
      write_then_read [of example_ws example_fs "''legacy.txt''" _ _ "[99, 97, 102, 233, 13, 10]"]
    by simp
qed

text \<open>
  A carriage return does not survive the round trip: written as it is, it is read
  back as a line feed.
\<close>

theorem write_then_read_counterexample:
  "fst (write_file example_ws example_fs ''a.txt'' [97, 13, 98]) = True
   \<and> read_file example_ws (snd (write_file example_ws example_fs ''a.txt'' [97, 13, 98])) ''a.txt''
       = Some [97, 10, 98]
   \<and> Some [97, 10, 98] \<noteq> Some [97, 13, 98::nat]"
  by (simp add: write_cr read_cr)

section \<open>Properties of the tool-call parser\<close>


lemma length_loaded_call: "length (loaded_call s) \<le> 1"
  by (simp add: loaded_call_def split: option.splits)

lemma length_balanced_call: "length (balanced_call s) \<le> 1"
proof (cases "brace_scan 0 s")
  case None
  then show ?thesis by (simp add: balanced_call_def)
next
  case (Some n)
  then show ?thesis using length_loaded_call [of "take n s"] by (simp add: balanced_call_def)
qed

lemma method3_acc: "method3 acc s = acc @ method3 [] s"
proof (induction s arbitrary: acc)
  case Nil
  then show ?case by simp
next
  case (Cons c cs)
  show ?case
  proof (cases "c = CHR ''{''")
    case True
    then show ?thesis
      using Cons.IH [of "acc @ balanced_call (c # cs)"] Cons.IH [of "balanced_call (c # cs)"]
      by simp
  next
    case False
    then show ?thesis using Cons.IH [of acc] by simp
  qed
qed

lemma method3_Cons:
  "method3 [] (c # cs) = (if c = CHR ''{'' then balanced_call (c # cs) else []) @ method3 [] cs"
  using method3_acc [of "balanced_call (c # cs)" cs] by (cases "c = CHR ''{''") simp_all

lemma length_method3: "length (method3 [] s) \<le> count_char (CHR ''{'') s"
proof (induction s)
  case Nil
  then show ?case by (simp add: count_char_def)
next
  case (Cons c cs)
  then show ?case
    using length_balanced_call [of "c # cs"]
    by (cases "c = CHR ''{''") (simp_all add: method3_Cons count_char_def del: method3.simps)
qed


lemma extract_cascade:
  "extract_tool_calls response =
     (if method1 [] (findall_fence 0 response) \<noteq> [] then method1 [] (findall_fence 0 response)
      else if method2 special_patterns response \<noteq> [] then method2 special_patterns response
      else method3 [] response)"
  by (simp add: extract_tool_calls_def Let_def)



lemma two_objects_method12:
  "method1 [] (findall_fence 0 two_objects_reply) = []
   \<and> method2 special_patterns two_objects_reply = []"
  by code_simp


lemma two_objects_method3:
  "method3 [] two_objects_reply =
     [\<lparr> tool_name = JStr ''a'', parameters = JObj [], reasoning = JStr [] \<rparr>,
      \<lparr> tool_name = JStr ''b'', parameters = JObj [], reasoning = JStr [] \<rparr>]"
  by code_simp


text \<open>
  C6, as the code has it. Method 3 runs only when methods 1 and 2 gave nothing; it
  goes through the whole response and, at every opening brace, takes the text up to
  the brace that balances it and loads it; each such text that is an object with a
  \<open>tool\<close> key gives a request. So there is at most one request for each opening brace
  of the response, not at most one in all.
\<close>

theorem brace_scan_yields_per_brace:
  "extract_tool_calls response =
     (if method1 [] (findall_fence 0 response) \<noteq> [] then method1 [] (findall_fence 0 response)
      else if method2 special_patterns response \<noteq> [] then method2 special_patterns response
      else method3 [] response)
   \<and> method3 [] [] = []
   \<and> method3 [] (c # cs) = (if c = CHR ''{'' then balanced_call (c # cs) else []) @ method3 [] cs
   \<and> balanced_call s = (case brace_scan 0 s of None \<Rightarrow> [] | Some n \<Rightarrow> loaded_call (take n s))
   \<and> length (balanced_call s) \<le> 1
   \<and> length (method3 [] response) \<le> count_char (CHR ''{'') response"
  using extract_cascade [of response] method3_Cons [of c cs] length_balanced_call [of s]
    length_method3 [of response]
  by (simp add: balanced_call_def del: method3.simps(2))

text \<open>Two objects side by side, with no fence and no marker, give two requests.\<close>

theorem brace_scan_counterexample:
  "method1 [] (findall_fence 0 two_objects_reply) = []
   \<and> method2 special_patterns two_objects_reply = []
   \<and> method3 [] two_objects_reply =
       [\<lparr> tool_name = JStr ''a'', parameters = JObj [], reasoning = JStr [] \<rparr>,
        \<lparr> tool_name = JStr ''b'', parameters = JObj [], reasoning = JStr [] \<rparr>]
   \<and> length (extract_tool_calls two_objects_reply) = 2"
  using two_objects_method12 two_objects_method3
  by (simp add: extract_cascade)

section \<open>Properties of the repair of a cut-off reply\<close>

lemma no_lt_startswith: "CHR ''<'' \<notin> set s \<Longrightarrow> \<not> startswith s (CHR ''<'' # p)"
  by (cases s) auto

















section \<open>Properties of the turn loop\<close>

lemma turn_body_shape:
  "(\<exists>st' lat. turn_body e st = Continue st'
      \<and> ui st' = ui st @ [PrintInfo ''Requesting AI action...'',
                           PrintSuccess (''Response ('' @ str_nat lat @ ''ms)'')])
   \<or> (\<exists>how st'. turn_body e st = Break how st' \<and> how \<noteq> TurnsExhausted)"
proof -
  obtain response w1 where g: "generate e (world st) (messages st) = (response, w1)"
    by (cases "generate e (world st) (messages st)")
  define tcs where "tcs = extract_tool_calls (llm_content response)"
  show ?thesis
  proof (cases "llm_success response")
    case False
    with g have "\<exists>st'. turn_body e st = Break LLMFailed st'" by (simp add: turn_body_def)
    then show ?thesis by auto
  next
    case ok: True
    show ?thesis
    proof (cases "tcs = [] \<and> (contains (llm_content response) ''<|constrain|>json<|message|>''
        \<or> contains (llm_content response) ''<|message|>'')")
      case True
      then have cond: "extract_tool_calls (llm_content response) = []
            \<and> (contains (llm_content response) ''<|constrain|>json<|message|>''
                 \<or> contains (llm_content response) ''<|message|>'')"
        unfolding tcs_def .
      have "\<exists>st'. turn_body e st = Break TaskCompleted st' \<or> turn_body e st = Break NotUnderstood st'"
        using g ok
        by (cases "list_ex (\<lambda>word. contains (lower (llm_content response)) word) done_words")
          (simp_all add: turn_body_def Let_def if_P [OF cond] del: contains.simps)
      then show ?thesis by auto
    next
      case no: False
      then have cond: "\<not> (extract_tool_calls (llm_content response) = []
            \<and> (contains (llm_content response) ''<|constrain|>json<|message|>''
                 \<or> contains (llm_content response) ''<|message|>''))"
        unfolding tcs_def .
      obtain res w2 where x: "exec_all e w1 (Suc 0) (length (extract_tool_calls (llm_content response)))
            (extract_tool_calls (llm_content response)) [] = (res, w2)"
        by (cases "exec_all e w1 (Suc 0) (length (extract_tool_calls (llm_content response)))
            (extract_tool_calls (llm_content response)) []")
      show ?thesis
      proof (cases res)
        case None
        with g ok x have "\<exists>st'. turn_body e st = Break Raised st'"
          by (simp add: turn_body_def Let_def ui_log_def if_not_P [OF cond] del: contains.simps)
        then show ?thesis by auto
      next
        case (Some results)
        show ?thesis
        proof (cases "results = []")
          case True
          with Some g ok x have "\<exists>st'. turn_body e st = Break NoResults st'"
            by (simp add: turn_body_def Let_def ui_log_def if_not_P [OF cond] del: contains.simps)
          then show ?thesis by auto
        next
          case False
          with Some g ok x have "\<exists>st'. turn_body e st = Continue st'
              \<and> ui st' = ui st @ [PrintInfo ''Requesting AI action...'',
                   PrintSuccess (''Response ('' @ str_nat (latency_ms response) @ ''ms)'')]"
            by (simp add: turn_body_def Let_def ui_log_def if_not_P [OF cond] del: contains.simps)
          then show ?thesis by blast
        qed
      qed
    qed
  qed
qed

lemma turn_body_Continue_calm:
  "turn_body e st = Continue st' \<Longrightarrow> \<not> list_ex failure_event (ui st)
   \<Longrightarrow> \<not> list_ex failure_event (ui st')"
  using turn_body_shape [of e st] by (auto simp: failure_event_def)

lemma turn_body_not_exhausted: "turn_body e st \<noteq> Break TurnsExhausted st'"
  using turn_body_shape [of e st] by auto

lemma run_turns_prefix: "prefix (turns_run (run_turns e ts sofar st)) (sofar @ ts)"
proof (induction ts arbitrary: sofar st)
  case Nil
  then show ?case by simp
next
  case (Cons t ts)
  show ?case
  proof (cases "turn_body e st")
    case (Continue st')
    with Cons.IH [of "sofar @ [t]" st'] show ?thesis by simp
  next
    case (Break how st')
    then show ?thesis by simp
  qed
qed

lemma run_turns_exhausted:
  "ending (run_turns e ts sofar st) = TurnsExhausted \<Longrightarrow> \<not> list_ex failure_event (ui st) \<Longrightarrow>
   turns_run (run_turns e ts sofar st) = sofar @ ts
   \<and> \<not> list_ex failure_event (ui (final (run_turns e ts sofar st)))"
proof (induction ts arbitrary: sofar st)
  case Nil
  then show ?case by simp
next
  case (Cons t ts)
  show ?case
  proof (cases "turn_body e st")
    case (Continue st')
    from Cons.prems(1) Continue
    have "ending (run_turns e ts (sofar @ [t]) st') = TurnsExhausted" by simp
    from Cons.IH [OF this turn_body_Continue_calm [OF Continue Cons.prems(2)]] Continue
    show ?thesis by simp
  next
    case (Break how st')
    with Cons.prems(1) have "how = TurnsExhausted" by simp
    with Break turn_body_not_exhausted [of e st st'] show ?thesis by simp
  qed
qed

lemma ending_execute_task:
  "ending (execute_task e w task max_turns) =
     ending (run_turns e [1..max_turns] []
       \<lparr> messages =
          [\<lparr> role = ''system'', content = system_prompt e \<rparr>,
           \<lparr> role = ''user'',
             content = ''Task: '' @ task @ [CHR 0x5C, CHR ''n''] @ ''Workspace: '' @ workspace_name e \<rparr>],
         ui = [PrintSeparator, PrintBold ''AGENT EXECUTION STARTED'', PrintSeparator,
               PrintBold (''Task: '' @ task)],
         world = w \<rparr>)"
  by (simp add: execute_task_def Let_def)

lemma turns_run_execute_task:
  "turns_run (execute_task e w task max_turns) =
     turns_run (run_turns e [1..max_turns] []
       \<lparr> messages =
          [\<lparr> role = ''system'', content = system_prompt e \<rparr>,
           \<lparr> role = ''user'',
             content = ''Task: '' @ task @ [CHR 0x5C, CHR ''n''] @ ''Workspace: '' @ workspace_name e \<rparr>],
         ui = [PrintSeparator, PrintBold ''AGENT EXECUTION STARTED'', PrintSeparator,
               PrintBold (''Task: '' @ task)],
         world = w \<rparr>)"
  by (simp add: execute_task_def Let_def)

lemma list_all_upto: "list_all (\<lambda>t. 1 \<le> t \<and> t \<le> m) [1..m]"
  by (simp add: list_all_iff)

lemma list_all_prefix: "prefix xs ys \<Longrightarrow> list_all P ys \<Longrightarrow> list_all P xs"
  by (auto simp: prefix_def)

text \<open>
  C7. The turns of a task execution are \<open>1, 2, ...\<close> in order and none exceeds
  \<open>max_turns\<close>, so there are at most \<open>max_turns\<close> of them; when the loop ends because
  the turns are used up, all \<open>max_turns\<close> turns were run, no error and no warning was
  reported, and the execution closes with its usual banner. The default of \<open>max_turns\<close>
  is 10.
\<close>

theorem turns_bounded_by_max_turns:
  "prefix (turns_run (execute_task e w task max_turns)) [1..max_turns]
   \<and> list_all (\<lambda>turn. 1 \<le> turn \<and> turn \<le> max_turns) (turns_run (execute_task e w task max_turns))
   \<and> length (turns_run (execute_task e w task max_turns)) \<le> nat max_turns
   \<and> (ending (execute_task e w task max_turns) = TurnsExhausted
      \<longrightarrow> turns_run (execute_task e w task max_turns) = [1..max_turns]
        \<and> \<not> list_ex failure_event (ui (final (execute_task e w task max_turns)))
        \<and> suffix [PrintSeparator, PrintBold ''AGENT EXECUTION COMPLETED'', PrintSeparator]
             (ui (final (execute_task e w task max_turns))))
   \<and> execute_task_default e w task = execute_task e w task 10"
proof -
  let ?st0 = "\<lparr> messages =
          [\<lparr> role = ''system'', content = system_prompt e \<rparr>,
           \<lparr> role = ''user'',
             content = ''Task: '' @ task @ [CHR 0x5C, CHR ''n''] @ ''Workspace: '' @ workspace_name e \<rparr>],
         ui = [PrintSeparator, PrintBold ''AGENT EXECUTION STARTED'', PrintSeparator,
               PrintBold (''Task: '' @ task)],
         world = w \<rparr>"
  let ?r = "run_turns e [1..max_turns] [] ?st0"
  have p: "prefix (turns_run (execute_task e w task max_turns)) [1..max_turns]"
    using run_turns_prefix [of e "[1..max_turns]" "[]" ?st0]
    by (simp add: turns_run_execute_task)
  have a: "list_all (\<lambda>turn. 1 \<le> turn \<and> turn \<le> max_turns)
      (turns_run (execute_task e w task max_turns))"
    using list_all_prefix [OF p list_all_upto] .
  have l: "length (turns_run (execute_task e w task max_turns)) \<le> nat max_turns"
    using prefix_length_le [OF p] by simp
  have calm0: "\<not> list_ex failure_event (ui ?st0)" by (simp add: failure_event_def)
  have x: "ending (execute_task e w task max_turns) = TurnsExhausted
      \<longrightarrow> turns_run (execute_task e w task max_turns) = [1..max_turns]
        \<and> \<not> list_ex failure_event (ui (final (execute_task e w task max_turns)))
        \<and> suffix [PrintSeparator, PrintBold ''AGENT EXECUTION COMPLETED'', PrintSeparator]
             (ui (final (execute_task e w task max_turns)))"
  proof
    assume "ending (execute_task e w task max_turns) = TurnsExhausted"
    then have ex: "ending ?r = TurnsExhausted" by (simp add: ending_execute_task)
    from run_turns_exhausted [OF ex calm0]
    have t: "turns_run ?r = [1..max_turns]" and c: "\<not> list_ex failure_event (ui (final ?r))"
      by simp_all
    have f: "final (execute_task e w task max_turns) =
        ui_log [PrintSeparator, PrintBold ''AGENT EXECUTION COMPLETED'', PrintSeparator] (final ?r)"
      using ex by (simp add: execute_task_def Let_def)
    show "turns_run (execute_task e w task max_turns) = [1..max_turns]
        \<and> \<not> list_ex failure_event (ui (final (execute_task e w task max_turns)))
        \<and> suffix [PrintSeparator, PrintBold ''AGENT EXECUTION COMPLETED'', PrintSeparator]
             (ui (final (execute_task e w task max_turns)))"
      using t c by (simp add: f turns_run_execute_task ui_log_def failure_event_def suffix_def)
  qed
  have d: "execute_task_default e w task = execute_task e w task 10"
    by (simp add: execute_task_default_def)
  from p a l x d show ?thesis by blast
qed

lemma scripted_run:
  "ending (execute_task (scripted_env read_file_reply) () ''fix the bug'' 2) = TurnsExhausted
   \<and> ui (final (execute_task (scripted_env read_file_reply) () ''fix the bug'' 2)) =
      [PrintSeparator, PrintBold ''AGENT EXECUTION STARTED'', PrintSeparator,
       PrintBold ''Task: fix the bug'', PrintInfo ''Requesting AI action...'',
       PrintSuccess ''Response (5ms)'', PrintInfo ''Requesting AI action...'',
       PrintSuccess ''Response (5ms)'', PrintSeparator,
       PrintBold ''AGENT EXECUTION COMPLETED'', PrintSeparator]"
  by code_simp

theorem turns_bounded_by_max_turns_witness:
  "ending (execute_task (scripted_env read_file_reply) () ''fix the bug'' 2) = TurnsExhausted
   \<and> turns_run (execute_task (scripted_env read_file_reply) () ''fix the bug'' 2) = [1, 2]
   \<and> \<not> list_ex failure_event (ui (final (execute_task (scripted_env read_file_reply) () ''fix the bug'' 2)))"
proof -
  have u: "[1..2::int] = [1, 2]" by (simp add: upto.simps)
  show ?thesis
    using scripted_run u
      turns_bounded_by_max_turns [of "scripted_env read_file_reply" "()" "''fix the bug''" 2]
    by simp
qed

text \<open>
  C4, at the replies \<open>Task completed\<close> and \<open>I am not sure what to do\<close>, which hold no
  tool call and no marker. The loop ends on the first turn, but the completion words
  are never looked at: neither \<open>Task completed!\<close> nor the warning is reported. With
  a marker in the reply, the check is made and gives one or the other.
\<close>

theorem completion_check_skipped_without_marker:
  "extract_tool_calls ''Task completed'' = []
   \<and> list_ex (\<lambda>word. contains (lower ''Task completed'') word) done_words
   \<and> ending (execute_task (scripted_env ''Task completed'') () ''fix the bug'' 10) = NoResults
   \<and> turns_run (execute_task (scripted_env ''Task completed'') () ''fix the bug'' 10) = [1]
   \<and> ui (final (execute_task (scripted_env ''Task completed'') () ''fix the bug'' 10)) =
      [PrintSeparator, PrintBold ''AGENT EXECUTION STARTED'', PrintSeparator,
       PrintBold ''Task: fix the bug'', PrintInfo ''Requesting AI action...'',
       PrintSuccess ''Response (5ms)'', PrintSeparator,
       PrintBold ''AGENT EXECUTION COMPLETED'', PrintSeparator]
   \<and> extract_tool_calls ''I am not sure what to do'' = []
   \<and> \<not> list_ex (\<lambda>word. contains (lower ''I am not sure what to do'') word) done_words
   \<and> ending (execute_task (scripted_env ''I am not sure what to do'') () ''fix the bug'' 10) = NoResults
   \<and> ui (final (execute_task (scripted_env ''I am not sure what to do'') () ''fix the bug'' 10)) =
      [PrintSeparator, PrintBold ''AGENT EXECUTION STARTED'', PrintSeparator,
       PrintBold ''Task: fix the bug'', PrintInfo ''Requesting AI action...'',
       PrintSuccess ''Response (5ms)'', PrintSeparator,
       PrintBold ''AGENT EXECUTION COMPLETED'', PrintSeparator]
   \<and> ending (execute_task (scripted_env ''<|message|>Task completed'') () ''fix the bug'' 10) = TaskCompleted
   \<and> ending (execute_task (scripted_env ''<|message|>I am not sure'') () ''fix the bug'' 10) = NotUnderstood"
  by code_simp

end
